theory Spec2Isabelle
  imports Complex_Main "HOL-Library.Sublist" "HOL-Library.Multiset"
begin

section \<open>Text primitives\<close>

text \<open>
  Python strings are modelled as \<open>string\<close> (a list of 8-bit characters), so the model speaks
  about ASCII text. \<open>sub in s\<close> is contiguous containment, \<^const>\<open>sublist\<close>.
\<close>

definition is_upper :: "char \<Rightarrow> bool" where
  "is_upper c = (65 \<le> (of_char c :: nat) \<and> (of_char c :: nat) \<le> 90)"

definition is_lower :: "char \<Rightarrow> bool" where
  "is_lower c = (97 \<le> (of_char c :: nat) \<and> (of_char c :: nat) \<le> 122)"

definition is_digit :: "char \<Rightarrow> bool" where
  "is_digit c = (48 \<le> (of_char c :: nat) \<and> (of_char c :: nat) \<le> 57)"

definition is_word :: "char \<Rightarrow> bool" where
  \<comment> \<open>the class \<open>\w\<close> of the regular expressions\<close>
  "is_word c = (is_upper c \<or> is_lower c \<or> is_digit c \<or> c = CHR ''_'')"

definition is_space :: "char \<Rightarrow> bool" where
  \<comment> \<open>the ASCII characters for which \<open>str.isspace\<close> holds\<close>
  "is_space c = ((9 \<le> (of_char c :: nat) \<and> (of_char c :: nat) \<le> 13)
               \<or> (28 \<le> (of_char c :: nat) \<and> (of_char c :: nat) \<le> 32))"

definition lower_char :: "char \<Rightarrow> char" where
  "lower_char c = (if is_upper c then char_of ((of_char c :: nat) + 32) else c)"

definition upper_char :: "char \<Rightarrow> char" where
  "upper_char c = (if is_lower c then char_of ((of_char c :: nat) - 32) else c)"

definition lower :: "string \<Rightarrow> string" where
  "lower s = map lower_char s"

definition strip :: "string \<Rightarrow> string" where
  "strip s = rev (dropWhile is_space (rev (dropWhile is_space s)))"

text \<open>\<open>str.title\<close>: a cased character is upper-cased after an uncased one and lower-cased
  after a cased one.\<close>

fun title_from :: "bool \<Rightarrow> string \<Rightarrow> string" where
  "title_from prev_cased [] = []"
| "title_from prev_cased (c # cs) =
     (if is_lower c then (if prev_cased then c else upper_char c) # title_from True cs
      else if is_upper c then (if prev_cased then lower_char c else c) # title_from True cs
      else c # title_from False cs)"

definition title :: "string \<Rightarrow> string" where
  "title s = title_from False s"

definition py_in :: "string \<Rightarrow> string \<Rightarrow> bool" where
  \<comment> \<open>\<open>sub in s\<close>\<close>
  "py_in sub s = sublist sub s"

definition any_in :: "string list \<Rightarrow> string \<Rightarrow> bool" where
  \<comment> \<open>\<open>any(k in s for k in ks)\<close>\<close>
  "any_in ks s = list_ex (\<lambda>k. py_in k s) ks"

definition int_of_digits :: "string \<Rightarrow> int" where
  \<comment> \<open>\<open>int(s)\<close> on a string of decimal digits\<close>
  "int_of_digits s = foldl (\<lambda>a c. 10 * a + (int (of_char c) - 48)) 0 s"

fun join :: "string \<Rightarrow> string list \<Rightarrow> string" where
  "join sep [] = []"
| "join sep [x] = x"
| "join sep (x # y # ys) = x @ sep @ join sep (y # ys)"

text \<open>
  \<open>re.findall(r'\b(\d+)\b', q)\<close>, scanning left to right. The flag says whether the
  character before the current position is a word character. A match starts at a digit
  that follows a non-word character (or the start of the text), takes the whole run of
  digits, and needs a non-word character (or the end of the text) after the run: a shorter
  run would end between two digits, where there is no word boundary. The search resumes
  behind a match, and one character further where there is none.
\<close>

function findall_numbers :: "bool \<Rightarrow> string \<Rightarrow> string list" where
  "findall_numbers prev_word [] = []"
| "findall_numbers prev_word (c # cs) =
     (if \<not> prev_word \<and> is_digit c then
        (let rest = dropWhile is_digit cs in
         if rest = [] \<or> \<not> is_word (hd rest)
         then (c # takeWhile is_digit cs) # findall_numbers True rest
         else findall_numbers True cs)
      else findall_numbers (is_word c) cs)"
  by pat_completeness auto
termination
  by (relation "measure (\<lambda>(p, s). length s)")
     (auto simp: le_imp_less_Suc length_dropWhile_le)

text \<open>
  \<open>re.findall(r'\b(19\d{2}|20\d{2})\b', q)\<close>: four digits starting with 19 or 20, between
  two word boundaries.
\<close>

definition year_here :: "string \<Rightarrow> bool" where
  "year_here s = (case s of
       a # b # c # d # rest \<Rightarrow>
         ((a = CHR ''1'' \<and> b = CHR ''9'') \<or> (a = CHR ''2'' \<and> b = CHR ''0''))
         \<and> is_digit c \<and> is_digit d \<and> (rest = [] \<or> \<not> is_word (hd rest))
     | _ \<Rightarrow> False)"

function findall_years :: "bool \<Rightarrow> string \<Rightarrow> string list" where
  "findall_years prev_word [] = []"
| "findall_years prev_word (c # cs) =
     (if \<not> prev_word \<and> year_here (c # cs)
      then take 4 (c # cs) # findall_years True (drop 3 cs)
      else findall_years (is_word c) cs)"
  by pat_completeness auto
termination
  by (relation "measure (\<lambda>(p, s). length s)") auto

section \<open>The rule-based question parser (parser.py)\<close>

datatype action = Compare | Top | Bottom | Trend | Correlate | Recommend | Identify

record parsed_query =
  raw :: string
  action :: action
  locations :: "string list"
  crops :: "string list"
  years :: "int list"
  limit :: int
  time_period :: string
  needs_rainfall :: bool
  needs_crops :: bool
  feasible :: bool
  reasoning :: string
  rewritten_query :: "string option"
  expected_result :: string

definition subdivisions :: "string list" where
  "subdivisions =
    [''andaman & nicobar islands'', ''arunachal pradesh'', ''assam'', ''bihar'',
     ''chhattisgarh'', ''coastal karnataka'', ''east madhya pradesh'', ''east rajasthan'',
     ''east uttar pradesh'', ''gangetic west bengal'', ''gujarat'', ''haryana'',
     ''himachal pradesh'', ''jammu & kashmir'', ''jharkhand'', ''karnataka'',
     ''kerala'', ''konkan & goa'', ''lakshadweep'', ''madhya maharashtra'',
     ''marathwada'', ''naga mani mizo tripura'', ''north interior karnataka'',
     ''odisha'', ''punjab'', ''rayalseema'', ''saurashtra & kutch'',
     ''south interior karnataka'', ''sub himalayan west bengal & sikkim'', ''tamil nadu'',
     ''telangana'', ''uttarakhand'', ''vidarbha'', ''west madhya pradesh'',
     ''west rajasthan'', ''west uttar pradesh'']"

definition districts :: "string list" where
  "districts =
    [''bagalkote'', ''belgaum'', ''bellary'', ''bengaluru rural'', ''bengaluru urban'',
     ''bidar'', ''bijapur'', ''chamarajanagar'', ''chikkaballapur'', ''chikkamagaluru'',
     ''chitradurga'', ''dakshina kannada'', ''davanagere'', ''dharwad'', ''gadag'',
     ''gulbarga'', ''hassan'', ''haveri'', ''kodagu'', ''kolar'', ''koppal'',
     ''mandya'', ''mysore'', ''raichur'', ''ramanagara'', ''shimoga'', ''tumkur'',
     ''udupi'', ''uttara kannada'', ''vijayapura'', ''yadgir'']"

definition find_locations :: "string \<Rightarrow> string list" where
  "find_locations q_lower =
     map title (filter (\<lambda>loc. py_in loc q_lower) (subdivisions @ districts))"

definition crop_keywords :: "(string \<times> string list) list" where
  "crop_keywords =
    [(''maize'', [''maize'', ''corn'']),
     (''ragi'', [''ragi'', ''finger millet'']),
     (''rice'', [''rice'', ''paddy'']),
     (''spice'', [''spice'', ''spices''])]"

definition find_crops :: "string \<Rightarrow> string list" where
  "find_crops q_lower =
     map fst (filter (\<lambda>(crop, aliases). any_in aliases q_lower) crop_keywords)"

definition detect_action :: "string \<Rightarrow> action" where
  "detect_action q_lower =
    (if any_in [''top'', ''highest'', ''most'', ''maximum'', ''rank''] q_lower then Top
     else if any_in [''bottom'', ''lowest'', ''least'', ''minimum''] q_lower then Bottom
     else if any_in [''trend'', ''over time'', ''decade'', ''historical pattern''] q_lower
       then Trend
     else if any_in [''correlat'', ''relationship'', ''affect'', ''impact'', ''influence'']
               q_lower then Correlate
     else if any_in [''policy'', ''recommend'', ''suggest'', ''should'', ''advise''] q_lower
       then Recommend
     else if any_in [''identify'', ''find'', ''which district'', ''which state''] q_lower
       then Identify
     else if any_in [''compare'', ''versus'', ''vs'', ''difference between''] q_lower
       then Compare
     else Compare)"

definition parse_limit :: "string \<Rightarrow> int" where
  \<comment> \<open>\<open>limit = int(numbers[0]) if numbers else 5\<close>\<close>
  "parse_limit q =
     (case findall_numbers False q of [] \<Rightarrow> 5 | n # _ \<Rightarrow> int_of_digits n)"

definition parse_years :: "string \<Rightarrow> int list" where
  "parse_years q = map int_of_digits (findall_years False q)"

definition detect_time_period :: "string \<Rightarrow> string" where
  "detect_time_period q_lower =
    (if py_in ''last 5 years'' q_lower \<or> py_in ''past 5 years'' q_lower then ''last_5''
     else if py_in ''last 10 years'' q_lower \<or> py_in ''past 10 years'' q_lower
             \<or> py_in ''decade'' q_lower then ''last_10''
     else if py_in ''last 20 years'' q_lower \<or> py_in ''past 20 years'' q_lower
       then ''last_20''
     else if py_in ''from'' q_lower \<and> py_in ''to'' q_lower then ''range''
     else ''all'')"

definition generate_expected_result ::
  "action \<Rightarrow> string list \<Rightarrow> string list \<Rightarrow> bool \<Rightarrow> bool \<Rightarrow> string" where
  "generate_expected_result act locs crps needs_r needs_c =
     join '' with ''
       ((case act of
           Top \<Rightarrow> [''Rankings of top performers'']
         | Bottom \<Rightarrow> [''Rankings of bottom performers'']
         | Compare \<Rightarrow> [''Comparative analysis'']
         | Correlate \<Rightarrow> [''Correlation analysis between variables'']
         | Trend \<Rightarrow> [''Trend analysis over time'']
         | Recommend \<Rightarrow> [''Data-backed policy recommendations'']
         | Identify \<Rightarrow> [])
        @ (if needs_r then [''rainfall statistics''] else [])
        @ (if needs_c then [''crop production data''] else [])
        @ (if locs \<noteq> [] \<and> locs \<noteq> [''all'']
           then [''for '' @ join '', '' (take 3 locs)] else []))"

definition crop_trend_reasoning :: string where
  "crop_trend_reasoning =
     ''Crop datasets have no year column - only snapshot data available. Cannot analyze trends over time for crops.''"

definition crop_trend_rewrite :: string where
  "crop_trend_rewrite = ''Show current crop production across districts (snapshot data)''"

definition fallback_parse_question :: "string \<Rightarrow> parsed_query" where
  "fallback_parse_question question =
    (let q = strip question;
         q_lower = lower q;
         locs = find_locations q_lower;
         crps = find_crops q_lower;
         act = detect_action q_lower;
         needs_r0 = any_in [''rain'', ''rainfall'', ''precipitation'', ''monsoon'', ''annual'']
                      q_lower;
         needs_c0 = any_in [''crop'', ''production'', ''yield'', ''area'', ''maize'', ''ragi'',
                            ''rice'', ''spice'', ''district''] q_lower;
         infeasible = (act = Trend \<and> needs_c0 \<and> \<not> needs_r0);
         both = (act = Trend \<and> needs_c0 \<and> needs_r0);
         widen = (locs \<noteq> [] \<and> \<not> needs_r0 \<and> \<not> needs_c0);
         reasoning1 = (if infeasible then crop_trend_reasoning else []);
         rewritten1 = (if infeasible then Some crop_trend_rewrite else None);
         reasoning2 = (if both
            then ''Will show rainfall trends over time. Crop data is snapshot only, so will show current production alongside historical rainfall patterns.''
            else reasoning1);
         rewritten2 = (if both
            then Some ''Compare historical rainfall trends with current crop production levels''
            else rewritten1);
         reasoning3 = (if widen
            then ''Querying both rainfall and crop data for comprehensive analysis''
            else reasoning2);
         needs_r = (if widen then True else needs_r0);
         needs_c = (if widen then True else needs_c0)
     in \<lparr> raw = q,
          action = act,
          locations = (if locs \<noteq> [] then locs else [''all'']),
          crops = crps,
          years = parse_years q,
          limit = parse_limit q,
          time_period = detect_time_period q_lower,
          needs_rainfall = needs_r,
          needs_crops = needs_c,
          feasible = \<not> infeasible,
          reasoning = reasoning3,
          rewritten_query = rewritten2,
          expected_result = generate_expected_result act locs crps needs_r needs_c \<rparr>)"


section \<open>Dictionaries and tables\<close>

text \<open>
  A Python \<open>dict\<close> keeps its keys in insertion order; storing under a key that is already
  there replaces the value and leaves the key where it stands. It is modelled as an
  association list with distinct keys.
\<close>

fun dict_set :: "('k \<times> 'v) list \<Rightarrow> 'k \<Rightarrow> 'v \<Rightarrow> ('k \<times> 'v) list" where
  "dict_set [] k v = [(k, v)]"
| "dict_set ((k', v') # d) k v =
     (if k' = k then (k', v) # d else (k', v') # dict_set d k v)"

text \<open>
  A loaded table (a pandas \<open>DataFrame\<close> read from a CSV file): named columns and rows of
  cells. A cell is missing (\<open>NaN\<close>), a text or a number. Every row has one cell per column,
  and column names are taken to be distinct, as \<open>read_csv\<close> makes them.
\<close>

datatype cell = Null | Txt string | Num real

record table =
  columns :: "string list"
  rows :: "cell list list"

section \<open>The schema resolver (analyzer.py, \<open>_find_column\<close>)\<close>

definition lower_map :: "string list \<Rightarrow> (string \<times> string) list" where
  \<comment> \<open>\<open>{c.lower(): c for c in cols}\<close>\<close>
  "lower_map cols = foldl (\<lambda>d c. dict_set d (lower c) c) [] cols"

fun find_column_in :: "(string \<times> string) list \<Rightarrow> string list \<Rightarrow> string option" where
  "find_column_in lm [] = None"
| "find_column_in lm (cand # cands) =
     (case find (\<lambda>(col_lower, col_real). py_in (lower cand) col_lower) lm of
        Some (col_lower, col_real) \<Rightarrow> Some col_real
      | None \<Rightarrow> find_column_in lm cands)"

definition find_column :: "string list \<Rightarrow> string list \<Rightarrow> string option" where
  \<comment> \<open>\<open>_find_column(df, candidates)\<close>, on the column names of \<open>df\<close>\<close>
  "find_column cols candidates = find_column_in (lower_map cols) candidates"

text \<open>
  The resolver in the words of the specification: candidates in priority order, and for
  each the first column, in declared order, whose lowercase name contains it.
\<close>

fun resolve_spec :: "string list \<Rightarrow> string list \<Rightarrow> string option" where
  "resolve_spec cols [] = None"
| "resolve_spec cols (cand # cands) =
     (case find (\<lambda>c. py_in (lower cand) (lower c)) cols of
        Some c \<Rightarrow> Some c
      | None \<Rightarrow> resolve_spec cols cands)"

section \<open>The dataset classifier (data_loader.py, \<open>load_all_datasets\<close>)\<close>

datatype category = Rainfall | Crop

record dataset_info =
  ds_name :: string
  df :: table
  ds_type :: category
  null_pct :: "real option"
  records :: nat

record dataset_meta =
  meta_type :: category
  meta_null_pct :: "real option"
  meta_records :: nat

record datasets =
  rainfall :: "dataset_info list"
  crops :: "dataset_info list"
  metadata :: "(string \<times> dataset_meta) list"

definition cols_lower_of :: "string list \<Rightarrow> string" where
  \<comment> \<open>\<open>' '.join([c.lower() for c in df.columns])\<close>\<close>
  "cols_lower_of cols = join '' '' (map lower cols)"

definition is_rainfall_kw :: "string \<Rightarrow> bool" where
  "is_rainfall_kw cl = any_in [''rain'', ''precipitation'', ''annual'', ''monsoon'',
                               ''subdivision'', ''jan'', ''feb'', ''mar''] cl"

definition is_crop_kw :: "string \<Rightarrow> bool" where
  "is_crop_kw cl = any_in [''crop'', ''production'', ''area'', ''yield'', ''district'',
                           ''kharif'', ''rabi'', ''all seasons''] cl"

definition has_month_kw :: "string \<Rightarrow> bool" where
  "has_month_kw cl = any_in [''jan'', ''feb'', ''mar'', ''apr''] cl"

definition classify :: "string list \<Rightarrow> category" where
  "classify cols =
     (let cl = cols_lower_of cols in
      if is_rainfall_kw cl then Rainfall
      else if is_crop_kw cl then Crop
      else if has_month_kw cl then Rainfall
      else Crop)"

definition compute_null_pct :: "table \<Rightarrow> real option" where
  \<comment> \<open>\<open>(df.isnull().sum().sum() / (df.shape[0] * df.shape[1])) * 100\<close>; \<open>None\<close> is the
      \<open>NaN\<close> of a table without cells\<close>
  "compute_null_pct t =
     (let cells = length (rows t) * length (columns t);
          nulls = length (filter (\<lambda>c. c = Null) (concat (rows t)))
      in if cells = 0 then None else Some (real nulls / real cells * 100))"

definition strip_columns :: "table \<Rightarrow> table" where
  \<comment> \<open>\<open>df.columns = df.columns.str.strip()\<close>\<close>
  "strip_columns t = t\<lparr>columns := map strip (columns t)\<rparr>"

text \<open>
  One turn of the loop of \<open>load_all_datasets\<close> for a file that \<open>read_csv\<close> has read. The
  year range of the descriptor, a text built from the minimum and maximum of a year
  column, plays no part in the category and is left out of the model.
\<close>

definition load_one :: "datasets \<Rightarrow> string \<Rightarrow> table \<Rightarrow> datasets" where
  "load_one d name t0 =
     (let t = strip_columns t0;
          np = compute_null_pct t;
          cat = classify (columns t);
          info = \<lparr>ds_name = name, df = t, ds_type = cat, null_pct = np,
                   records = length (rows t)\<rparr>;
          meta = \<lparr>meta_type = cat, meta_null_pct = np, meta_records = length (rows t)\<rparr>
      in case cat of
           Rainfall \<Rightarrow> d\<lparr>rainfall := rainfall d @ [info],
                           metadata := dict_set (metadata d) name meta\<rparr>
         | Crop \<Rightarrow> d\<lparr>crops := crops d @ [info],
                       metadata := dict_set (metadata d) name meta\<rparr>)"

text \<open>A file that cannot be read (\<open>None\<close>) is skipped and loading goes on.\<close>

fun load_all_datasets :: "datasets \<Rightarrow> (string \<times> table option) list \<Rightarrow> datasets" where
  "load_all_datasets d [] = d"
| "load_all_datasets d ((name, None) # files) = load_all_datasets d files"
| "load_all_datasets d ((name, Some t) # files) = load_all_datasets (load_one d name t) files"

definition empty_datasets :: datasets where
  "empty_datasets = \<lparr>rainfall = [], crops = [], metadata = []\<rparr>"

section \<open>Query results\<close>

text \<open>
  The executors of analyzer.py return dictionaries of statistics. The averages and totals
  are floats computed from a non-empty numeric sample, so they are numbers; they are
  modelled as reals, and rounding is not modelled.
\<close>

record rain_stat =
  rainfall_avg :: real
  rainfall_min :: real
  rainfall_max :: real
  rain_points :: nat
  rain_years :: string
  rain_source :: string

record crop_stat =
  crop_location :: string
  crop_name :: string
  production_total :: real
  production_avg :: real
  crop_area :: "real option"
  crop_points :: nat
  crop_source :: string

type_synonym rain_results = "(string \<times> rain_stat) list"
type_synonym crop_results = "(string \<times> crop_stat) list"

section \<open>Sorting, slicing and correlation\<close>

text \<open>
  \<open>sorted(xs, key=..., reverse=...)\<close> is a stable sort. With \<open>reverse=True\<close> CPython reverses
  the list, sorts it stably in ascending order and reverses the result, which keeps equal
  keys in their original order.
\<close>

definition py_sorted :: "('a \<Rightarrow> real) \<Rightarrow> bool \<Rightarrow> 'a list \<Rightarrow> 'a list" where
  "py_sorted key reverse xs =
     (if reverse then rev (sort_key key (rev xs)) else sort_key key xs)"

text \<open>
  A ranking in the words of the specification: the same entries, ordered by the key
  (descending or ascending), entries with equal keys in their original order.
\<close>

definition is_ranking :: "('a \<Rightarrow> real) \<Rightarrow> bool \<Rightarrow> 'a list \<Rightarrow> 'a list \<Rightarrow> bool" where
  "is_ranking key descending xs ranked =
     (mset ranked = mset xs
      \<and> (if descending then sorted (rev (map key ranked)) else sorted (map key ranked))
      \<and> (\<forall>v. filter (\<lambda>e. key e = v) ranked = filter (\<lambda>e. key e = v) xs))"

definition py_slice_to :: "int \<Rightarrow> 'a list \<Rightarrow> 'a list" where
  \<comment> \<open>\<open>xs[:n]\<close>; a negative \<open>n\<close> counts from the end\<close>
  "py_slice_to n xs =
     (if 0 \<le> n then take (nat n) xs else take (length xs - nat (- n)) xs)"

definition mean :: "real list \<Rightarrow> real" where
  "mean xs = sum_list xs / real (length xs)"

text \<open>
  \<open>Series.corr\<close>, the Pearson coefficient of two series of equal length, over the reals.
  \<open>None\<close> is \<open>NaN\<close>: fewer than two observations, or a series without variance. The
  factors \<open>1 / (n - 1)\<close> of covariance and variances cancel.
\<close>

definition pearson :: "real list \<Rightarrow> real list \<Rightarrow> real option" where
  "pearson xs ys =
     (let sxy = (\<Sum>(x, y) \<leftarrow> zip xs ys. (x - mean xs) * (y - mean ys));
          sxx = (\<Sum>x \<leftarrow> xs. (x - mean xs)\<^sup>2);
          syy = (\<Sum>y \<leftarrow> ys. (y - mean ys)\<^sup>2)
      in if length xs < 2 \<or> sxx = 0 \<or> syy = 0 then None
         else Some (sxy / (sqrt sxx * sqrt syy)))"

section \<open>Output text\<close>

text \<open>
  A line of output is a format string of the source together with the values it
  interpolates, in order; how a float is printed is not modelled. \<open>NaN\<close> is a float that
  is not a number. Dashes of the source texts are written \<open>-\<close>.
\<close>

datatype arg = S string | I int | F real | NaN

datatype line = Line string "arg list"

definition float_arg :: "real option \<Rightarrow> arg" where
  "float_arg v = (case v of None \<Rightarrow> NaN | Some x \<Rightarrow> F x)"

section \<open>Combining results (analyzer.py, \<open>combine_and_analyze\<close>)\<close>

record corr_row =
  row_rainfall :: real
  row_production :: real
  row_crop :: string
  row_loc :: string

record summary =
  sum_rainfall_rank :: "rain_results option"
  sum_crop_rank :: "crop_results option"
  sum_rainfall :: "rain_results option"
  sum_crops :: "crop_results option"
  sum_combined :: "(string \<times> rain_stat \<times> crop_stat) list option"
  sum_correlation :: "real option option"
  sum_correlation_df :: "corr_row list option"

definition empty_summary :: summary where
  "empty_summary = \<lparr>sum_rainfall_rank = None, sum_crop_rank = None, sum_rainfall = None,
     sum_crops = None, sum_combined = None, sum_correlation = None,
     sum_correlation_df = None\<rparr>"

definition locality_match :: "string \<Rightarrow> string \<Rightarrow> bool" where
  \<comment> \<open>\<open>rloc.lower() in cloc.lower() or cloc.lower() in rloc.lower()\<close>\<close>
  "locality_match rloc cloc = (py_in (lower rloc) (lower cloc) \<or> py_in (lower cloc) (lower rloc))"

definition matched_pairs :: "rain_results \<Rightarrow> crop_results \<Rightarrow> (string \<times> rain_stat \<times> crop_stat) list" where
  \<comment> \<open>the two nested loops over the rainfall and the crop results\<close>
  "matched_pairs rr cr =
     concat (map (\<lambda>(rloc, rdata).
        map (\<lambda>(ckey, cdata). (rloc, rdata, cdata))
            (filter (\<lambda>(ckey, cdata). locality_match rloc (crop_location cdata)) cr)) rr)"

definition rank_rainfall :: "bool \<Rightarrow> int \<Rightarrow> rain_results \<Rightarrow> rain_results" where
  \<comment> \<open>\<open>sorted(rainfall_results.items(), key=lambda x: x[1]['rainfall_avg'], reverse=...)[:limit]\<close>\<close>
  "rank_rainfall reverse lmt rr = py_slice_to lmt (py_sorted (\<lambda>x. rainfall_avg (snd x)) reverse rr)"

definition rank_crops :: "bool \<Rightarrow> int \<Rightarrow> crop_results \<Rightarrow> crop_results" where
  \<comment> \<open>\<open>sorted(crop_results.items(), key=lambda x: x[1]['production_total'], reverse=...)[:limit]\<close>\<close>
  "rank_crops reverse lmt cr = py_slice_to lmt (py_sorted (\<lambda>x. production_total (snd x)) reverse cr)"

definition top_or_bottom :: "bool \<Rightarrow> string" where
  "top_or_bottom is_top = (if is_top then ''Top'' else ''Bottom'')"

definition rain_rank_line :: "nat \<times> string \<times> rain_stat \<Rightarrow> line" where
  "rain_rank_line = (\<lambda>(rank, (loc, stats)).
     Line ''{}. **{}** - {:.1f} mm/year (source: {})''
       [I (int rank), S loc, F (rainfall_avg stats), S (rain_source stats)])"

definition crop_rank_line :: "nat \<times> string \<times> crop_stat \<Rightarrow> line" where
  "crop_rank_line = (\<lambda>(rank, (k, stats)).
     Line ''{}. **{} - {}** - {:.0f} tonnes (source: {})''
       [I (int rank), S (crop_location stats), S (crop_name stats),
        F (production_total stats), S (crop_source stats)])"

definition analyze_ranking :: "bool \<Rightarrow> int \<Rightarrow> rain_results \<Rightarrow> crop_results \<Rightarrow> line list \<times> summary" where
  "analyze_ranking is_top lmt rr cr =
     (let sorted_r = rank_rainfall is_top lmt rr;
          sorted_c = rank_crops is_top lmt cr;
          lines_r = (if rr \<noteq> [] then
             Line ''### {} {} Subdivisions by Average Rainfall'' [S (top_or_bottom is_top), I lmt]
             # map rain_rank_line (enumerate 1 sorted_r)
             else []);
          lines_c = (if cr \<noteq> [] then
             Line ''### {} {} Crop Production Regions'' [S (top_or_bottom is_top), I lmt]
             # map crop_rank_line (enumerate 1 sorted_c)
             else [])
      in (lines_r @ lines_c,
          empty_summary\<lparr>sum_rainfall_rank := (if rr \<noteq> [] then Some sorted_r else None),
                          sum_crop_rank := (if cr \<noteq> [] then Some sorted_c else None)\<rparr>))"

definition analyze_compare :: "rain_results \<Rightarrow> crop_results \<Rightarrow> line list \<times> summary" where
  "analyze_compare rr cr =
     (if rr \<noteq> [] \<and> cr = [] then
        (Line ''### Rainfall Comparison'' []
         # map (\<lambda>(loc, s). Line ''**{}** - Avg: {:.1f} mm/year; Range: {:.1f} - {:.1f} (source: {})''
                  [S loc, F (rainfall_avg s), F (rainfall_min s), F (rainfall_max s),
                   S (rain_source s)]) rr,
         empty_summary\<lparr>sum_rainfall := Some rr\<rparr>)
      else if cr \<noteq> [] \<and> rr = [] then
        (Line ''### Crop Production Comparison'' []
         # map (\<lambda>(key, s). Line ''**{} - {}** - Total: {:.0f} tonnes; Avg: {:.0f} (source: {})''
                  [S (crop_location s), S (crop_name s), F (production_total s),
                   F (production_avg s), S (crop_source s)]) cr,
         empty_summary\<lparr>sum_crops := Some cr\<rparr>)
      else
        (let combined = matched_pairs rr cr in
         if combined \<noteq> [] then
           (Line ''### Cross-domain analysis: Rainfall vs Crop Production'' []
            # map (\<lambda>(rloc, rdata, cdata).
                Line ''**{}** - Rainfall: {:.1f} mm/year [{}]; {} production: {:.0f} tonnes [{}]''
                  [S rloc, F (rainfall_avg rdata), S (rain_source rdata),
                   S (title (crop_name cdata)), F (production_total cdata),
                   S (crop_source cdata)]) combined,
            empty_summary\<lparr>sum_combined := Some combined\<rparr>)
         else
           ([Line ''### Cross-domain analysis: Rainfall vs Crop Production'' [],
             Line ''No strong locality-level matches found between your rainfall and crop datasets. Consider providing a mapping or checking district/state names.'' []],
            empty_summary)))"

definition correlation_rows :: "rain_results \<Rightarrow> crop_results \<Rightarrow> corr_row list" where
  "correlation_rows rr cr =
     map (\<lambda>(rloc, rdata, cdata).
            \<lparr>row_rainfall = rainfall_avg rdata, row_production = production_total cdata,
             row_crop = crop_name cdata, row_loc = rloc\<rparr>)
         (matched_pairs rr cr)"

definition correlation_heading :: line where
  "correlation_heading = Line ''### Correlation Analysis'' []"

definition pearson_line :: "real option \<Rightarrow> line" where
  "pearson_line corr =
     Line ''Pearson correlation between rainfall and production for matched localities: {:.2f}''
       [float_arg corr]"

definition insufficient_pairs_line :: line where
  "insufficient_pairs_line =
     Line ''Insufficient matched locality pairs for correlation analysis.'' []"

definition analyze_correlate :: "rain_results \<Rightarrow> crop_results \<Rightarrow> line list \<times> summary" where
  "analyze_correlate rr cr =
     (let rws = correlation_rows rr cr in
      if rws \<noteq> [] then
        (let corr = pearson (map row_rainfall rws) (map row_production rws) in
         ([correlation_heading, pearson_line corr],
          empty_summary\<lparr>sum_correlation := Some corr, sum_correlation_df := Some rws\<rparr>))
      else
        ([correlation_heading, insufficient_pairs_line], empty_summary))"

definition analyze_recommend :: "rain_results \<Rightarrow> line list \<times> summary" where
  "analyze_recommend rr =
     (let low = map (\<lambda>(loc, s). (loc, rainfall_avg s)) (filter (\<lambda>(loc, s). rainfall_avg s < 800) rr);
          high = map (\<lambda>(loc, s). (loc, rainfall_avg s))
                   (filter (\<lambda>(loc, s). \<not> rainfall_avg s < 800 \<and> rainfall_avg s > 1500) rr);
          region = (\<lambda>(loc, r). Line ''- {}: {:.0f} mm/year'' [S loc, F r])
      in ([Line ''### Policy Recommendations (data-backed heuristics)'' []]
          @ (if low \<noteq> [] then
               Line ''Low-rainfall regions (consider drought-resistant crops):'' []
               # map region (take 10 low) else [])
          @ (if high \<noteq> [] then
               Line ''High-rainfall regions (suitable for water-intensive crops):'' []
               # map region (take 10 high) else [])
          @ (if low = [] \<and> high = [] then
               [Line ''Insufficient rainfall data for regional recommendations.'' []] else []),
          empty_summary))"

definition combine_and_analyze ::
  "parsed_query \<Rightarrow> rain_results \<Rightarrow> crop_results \<Rightarrow> line list \<times> summary" where
  "combine_and_analyze parsed rr cr =
     (let (answer_lines, summ) =
        (case action parsed of
           Top \<Rightarrow> analyze_ranking True (limit parsed) rr cr
         | Bottom \<Rightarrow> analyze_ranking False (limit parsed) rr cr
         | Compare \<Rightarrow> analyze_compare rr cr
         | Correlate \<Rightarrow> analyze_correlate rr cr
         | Recommend \<Rightarrow> analyze_recommend rr
         | _ \<Rightarrow> ([], empty_summary))
      in (if answer_lines = []
          then [Line ''No result could be generated for the requested query. Check dataset availability and spelling of locations/crops.'' []]
          else answer_lines, summ))"

section \<open>The answer generator (answer_generator.py)\<close>

text \<open>
  The two methods of \<open>AnswerGenerator\<close> that rank and correlate; each returns the parts it
  appends to \<open>answer_parts\<close>.
\<close>

definition rain_rank_entry :: "nat \<times> string \<times> rain_stat \<Rightarrow> line" where
  "rain_rank_entry = (\<lambda>(rank, (loc, stats)).
     Line ''**{}. {}** - Average Annual Rainfall: **{:.1f} mm** - Range: {:.1f} mm to {:.1f} mm - Data Coverage: {} ({} observations) - Source: `{}`''
       [I (int rank), S loc, F (rainfall_avg stats), F (rainfall_min stats),
        F (rainfall_max stats), S (rain_years stats), I (int (rain_points stats)),
        S (rain_source stats)])"

definition crop_rank_entry :: "nat \<times> string \<times> crop_stat \<Rightarrow> line" where
  "crop_rank_entry = (\<lambda>(rank, (key, stats)).
     Line ''**{}. {} - {}** - Total Production: **{:.0f} tonnes** - Average Production: {:.0f} tonnes - Cultivated Area: {} - Source: `{}`''
       ([I (int rank), S (crop_location stats), S (title (crop_name stats)),
         F (production_total stats), F (production_avg stats)]
        @ (case crop_area stats of
             None \<Rightarrow> [S ''Area data unavailable'']
           | Some a \<Rightarrow> if a = 0 then [S ''Area data unavailable'']
                       else [F a, S '' hectares''])
        @ [S (crop_source stats)]))"

definition rain_rank_intro :: "int \<Rightarrow> bool \<Rightarrow> line" where
  "rain_rank_intro lmt ascending =
     Line ''Based on the analysis of historical rainfall data spanning multiple decades, I've identified the {} subdivisions with the {} average annual rainfall. This ranking is derived from comprehensive meteorological records:''
       [I lmt, S (if ascending then ''lowest'' else ''highest'')]"

definition crop_rank_intro :: "int \<Rightarrow> bool \<Rightarrow> line" where
  "crop_rank_intro lmt ascending =
     Line ''Analyzing district-level agricultural production data, here are the {} districts with the {} crop production volumes:''
       [I lmt, S (if ascending then ''lowest'' else ''highest'')]"

definition generate_ranking_answer ::
  "parsed_query \<Rightarrow> rain_results \<Rightarrow> crop_results \<Rightarrow> bool \<Rightarrow> line list" where
  "generate_ranking_answer parsed rr cr ascending =
     (let lmt = limit parsed;
          sorted_rain = rank_rainfall (\<not> ascending) lmt rr;
          sorted_crops = rank_crops (\<not> ascending) lmt cr
      in (if rr \<noteq> [] then
            rain_rank_intro lmt ascending # map rain_rank_entry (enumerate 1 sorted_rain)
          else [])
         @ (if cr \<noteq> [] then
              (if rr \<noteq> [] then [Line ''#### Crop Production Rankings'' []] else [])
              @ crop_rank_intro lmt ascending # map crop_rank_entry (enumerate 1 sorted_crops)
            else []))"

record matched_datum =
  md_location :: string
  md_rainfall :: real
  md_production :: real
  md_crop :: string

definition matched_data :: "rain_results \<Rightarrow> crop_results \<Rightarrow> matched_datum list" where
  "matched_data rr cr =
     map (\<lambda>(rain_loc, rain_stats, crop_stats).
            \<lparr>md_location = rain_loc, md_rainfall = rainfall_avg rain_stats,
             md_production = production_total crop_stats, md_crop = crop_name crop_stats\<rparr>)
         (matched_pairs rr cr)"

definition gt_nan :: "real option \<Rightarrow> real \<Rightarrow> bool" where
  \<comment> \<open>\<open>x > c\<close> on a float: false when \<open>x\<close> is \<open>NaN\<close>\<close>
  "gt_nan x c = (case x of None \<Rightarrow> False | Some v \<Rightarrow> v > c)"

definition lt_nan :: "real option \<Rightarrow> real \<Rightarrow> bool" where
  "lt_nan x c = (case x of None \<Rightarrow> False | Some v \<Rightarrow> v < c)"

definition abs_nan :: "real option \<Rightarrow> real option" where
  "abs_nan x = map_option abs x"

definition corr_strength :: "real option \<Rightarrow> string" where
  "corr_strength correlation =
     (if gt_nan (abs_nan correlation) 0.7 then ''strong''
      else if gt_nan (abs_nan correlation) 0.4 then ''moderate''
      else ''weak'')"

definition corr_direction :: "real option \<Rightarrow> string" where
  "corr_direction correlation = (if gt_nan correlation 0 then ''positive'' else ''negative'')"

definition needs_both_domains_line :: line where
  "needs_both_domains_line =
     Line ''Correlation analysis requires both rainfall and crop production data. The current query returned data from only one domain.'' []"

definition correlation_intro_line :: line where
  "correlation_intro_line =
     Line ''I've conducted a correlation analysis to identify relationships between rainfall patterns and agricultural production:'' []"

definition coefficient_line :: "real option \<Rightarrow> line" where
  "coefficient_line correlation =
     Line ''**Correlation Coefficient: {:.3f}**'' [float_arg correlation]"

definition strength_line :: "real option \<Rightarrow> nat \<Rightarrow> line" where
  "strength_line correlation n =
     Line ''The analysis reveals a **{} {} correlation** between rainfall and crop production across {} matched locations.''
       [S (corr_strength correlation), S (corr_direction correlation), I (int n)]"

definition interpretation_line :: "real option \<Rightarrow> line" where
  "interpretation_line correlation =
     (if gt_nan correlation 0.5 then
        Line ''*Interpretation*: Higher rainfall is associated with increased crop production, suggesting water availability is a key limiting factor for agricultural output.'' []
      else if lt_nan correlation (- 0.5) then
        Line ''*Interpretation*: Higher rainfall is associated with decreased production, which may indicate flooding issues or waterlogging affecting crop growth.'' []
      else
        Line ''*Interpretation*: The relationship between rainfall and production is not strongly linear, suggesting other factors (soil quality, farming practices, crop variety) play significant roles.'' [])"

definition insufficient_points_line :: "nat \<Rightarrow> line" where
  "insufficient_points_line n =
     Line ''Insufficient matched data points ({}) for robust correlation analysis. Correlation requires at least 3 location pairs.''
       [I (int n)]"

definition generate_correlation_answer :: "rain_results \<Rightarrow> crop_results \<Rightarrow> line list" where
  "generate_correlation_answer rr cr =
     (if \<not> (rr \<noteq> [] \<and> cr \<noteq> []) then [needs_both_domains_line]
      else
        (let md = matched_data rr cr in
         correlation_intro_line
         # (if length md \<ge> 3 then
              (let correlation = pearson (map md_rainfall md) (map md_production md) in
               [coefficient_line correlation,
                strength_line correlation (length md),
                interpretation_line correlation])
            else [insufficient_points_line (length md)])))"

section \<open>The confidence score (app.py, \<open>calculate_confidence_score\<close>)\<close>

text \<open>
  The executors of app.py store averages that may be \<open>NaN\<close> (\<open>None\<close>), and key the rainfall
  results by a value of the location column.
\<close>

datatype py_error = KeyError | ValueError | TypeError

record app_rain_stat =
  a_rainfall_avg :: "real option"
  a_rainfall_max :: "real option"
  a_rainfall_min :: "real option"
  a_rain_points :: nat
  a_rain_years :: string
  a_rain_source :: string

record app_crop_stat =
  a_crop :: string
  a_location :: cell
  a_production_total :: "real option"
  a_production_avg :: "real option"
  a_area :: "real option"
  a_crop_points :: nat
  a_crop_source :: string

record app_meta =
  am_type :: category
  am_quality :: string

type_synonym app_rain_results = "(cell \<times> app_rain_stat) list"
type_synonym app_crop_results = "(string \<times> app_crop_stat) list"

definition py_int :: "real \<Rightarrow> int" where
  \<comment> \<open>\<open>int(x)\<close> on a float: truncation towards zero\<close>
  "py_int x = (if 0 \<le> x then \<lfloor>x\<rfloor> else \<lceil>x\<rceil>)"

definition completeness_factor ::
  "app_rain_results \<Rightarrow> app_crop_results \<Rightarrow> parsed_query \<Rightarrow> real \<times> line list" where
  "completeness_factor rr cr parsed =
     (let requested_locations = length (filter (\<lambda>loc. loc \<noteq> ''all'') (locations parsed));
          found_locations = length rr + length (remdups (map (\<lambda>kv. a_location (snd kv)) cr))
      in if requested_locations > 0 then
           (let completeness = min 100 (real found_locations / real requested_locations * 100)
            in (completeness / 100 * 40, [Line ''Data Completeness: {:.0f}%'' [F completeness]]))
         else (35, [Line ''Data Completeness: Full dataset query'' []]))"

definition volume_factor :: "app_rain_results \<Rightarrow> app_crop_results \<Rightarrow> real \<times> line list" where
  "volume_factor rr cr =
     (let total_points = sum_list (map (\<lambda>kv. a_rain_points (snd kv)) rr)
                        + sum_list (map (\<lambda>kv. a_crop_points (snd kv)) cr)
      in if total_points > 1000 then
           (20, [Line ''Data Points: {:,} (Excellent)'' [I (int total_points)]])
         else if total_points > 100 then
           (15, [Line ''Data Points: {:,} (Good)'' [I (int total_points)]])
         else (10, [Line ''Data Points: {:,} (Adequate)'' [I (int total_points)]]))"

definition quality_points :: "string \<Rightarrow> real" where
  "quality_points quality =
     (if quality = ''high'' then 20 else if quality = ''medium'' then 15 else 10)"

definition quality_scores :: "(string \<times> app_meta) list \<Rightarrow> string list \<Rightarrow> real list" where
  "quality_scores meta sources_used =
     concat (map (\<lambda>source. case map_of meta source of
                               None \<Rightarrow> []
                             | Some m \<Rightarrow> [quality_points (am_quality m)]) sources_used)"

text \<open>
  The line of the quality factor reads the metadata of the first source used, whether or
  not that source has metadata: a \<open>KeyError\<close> when it has none.
\<close>

definition quality_factor ::
  "(string \<times> app_meta) list \<Rightarrow> string list \<Rightarrow> py_error + real \<times> line list" where
  "quality_factor meta sources_used =
     (let qs = quality_scores meta sources_used in
      if qs \<noteq> [] then
        (case map_of meta (hd sources_used) of
           None \<Rightarrow> Inl KeyError
         | Some m \<Rightarrow> Inr (sum_list qs / real (length qs),
                          [Line ''Data Quality: {}'' [S (title (am_quality m))]]))
      else Inr (15, []))"

definition source_factor :: "string list \<Rightarrow> real \<times> line list" where
  "source_factor sources_used =
     (if length sources_used > 1 then
        (10, [Line ''Multi-Source: {} datasets'' [I (int (length sources_used))]])
      else if length sources_used = 1 then (5, [Line ''Single Source'' []])
      else (0, []))"

definition cross_factor :: "app_rain_results \<Rightarrow> app_crop_results \<Rightarrow> real \<times> line list" where
  "cross_factor rr cr =
     (if rr \<noteq> [] \<and> cr \<noteq> [] then (10, [Line ''Cross-Domain Analysis'' []]) else (0, []))"

definition result_sources :: "app_rain_results \<Rightarrow> app_crop_results \<Rightarrow> string list" where
  "result_sources rr cr =
     map (\<lambda>kv. a_rain_source (snd kv)) rr @ map (\<lambda>kv. a_crop_source (snd kv)) cr"

text \<open>
  \<open>list(set(...))\<close> lists the sources in the order of their hashes, which the source does not
  fix; the order is the parameter \<open>list_of_set\<close>.
\<close>

definition calculate_confidence_score ::
  "(string list \<Rightarrow> string list) \<Rightarrow> app_rain_results \<Rightarrow> app_crop_results \<Rightarrow> parsed_query
     \<Rightarrow> (string \<times> app_meta) list \<Rightarrow> py_error + int \<times> line list" where
  "calculate_confidence_score list_of_set rr cr parsed meta =
     (let (s1, f1) = completeness_factor rr cr parsed;
          (s2, f2) = volume_factor rr cr;
          sources_used = list_of_set (result_sources rr cr)
      in case quality_factor meta sources_used of
           Inl e \<Rightarrow> Inl e
         | Inr (s3, f3) \<Rightarrow>
             (let (s4, f4) = source_factor sources_used;
                  (s5, f5) = cross_factor rr cr
              in Inr (min 99 (py_int (s1 + s2 + s3 + s4 + s5)), f1 @ f2 @ f3 @ f4 @ f5)))"

section \<open>Table access and the pandas operations\<close>

text \<open>
  What pandas does on data of any shape is library code outside the repository. The
  operations whose result depends on it are parameters of the model, collected in a
  record: how a number prints (\<open>astype(str)\<close>, f-strings), which texts \<open>pd.to_numeric\<close> reads
  as a number, \<open>str.contains\<close> for a pattern with regular-expression metacharacters
  (\<open>None\<close>: the pattern does not compile), the sum of the month cells of a row (\<open>None\<close>: it
  raises), the text \<open>f"{col.min()}-{col.max()}"\<close> (\<open>None\<close>: the comparison raises), and
  mean, maximum and minimum of cells among which there is a text (\<open>None\<close>: they raise).
  Every theorem holds for all values of these parameters.
\<close>

record pandas =
  num_str :: "real \<Rightarrow> string"
  read_num :: "string \<Rightarrow> real option"
  regex_search :: "string \<Rightarrow> string \<Rightarrow> bool option"
  row_sum :: "cell list \<Rightarrow> cell option"
  min_max_str :: "cell list \<Rightarrow> string option"
  text_stats :: "cell list \<Rightarrow> (real option \<times> real option \<times> real option) option"

fun col_index :: "string list \<Rightarrow> string \<Rightarrow> nat" where
  "col_index [] c = 0"
| "col_index (x # xs) c = (if x = c then 0 else Suc (col_index xs c))"

definition get_cell :: "cell list \<Rightarrow> nat \<Rightarrow> cell" where
  \<comment> \<open>a field that the file lacks is read as missing\<close>
  "get_cell r i = (if i < length r then r ! i else Null)"

definition cell_of :: "table \<Rightarrow> string \<Rightarrow> cell list \<Rightarrow> cell" where
  "cell_of t c r = get_cell r (col_index (columns t) c)"

definition col_values :: "table \<Rightarrow> string \<Rightarrow> cell list" where
  \<comment> \<open>\<open>df[c]\<close>\<close>
  "col_values t c = map (cell_of t c) (rows t)"

definition dropna :: "cell list \<Rightarrow> cell list" where
  "dropna cs = filter (\<lambda>c. c \<noteq> Null) cs"

definition unique :: "'a list \<Rightarrow> 'a list" where
  \<comment> \<open>the distinct values in order of first appearance\<close>
  "unique xs = rev (remdups (rev xs))"

definition cell_str :: "pandas \<Rightarrow> cell \<Rightarrow> string" where
  \<comment> \<open>\<open>str(x)\<close>, \<open>astype(str)\<close>\<close>
  "cell_str P c = (case c of Null \<Rightarrow> ''nan'' | Txt s \<Rightarrow> s | Num x \<Rightarrow> num_str P x)"

definition to_numeric :: "pandas \<Rightarrow> cell \<Rightarrow> real option" where
  \<comment> \<open>\<open>pd.to_numeric(..., errors='coerce')\<close>; \<open>None\<close> is \<open>NaN\<close>\<close>
  "to_numeric P c = (case c of Null \<Rightarrow> None | Txt s \<Rightarrow> read_num P s | Num x \<Rightarrow> Some x)"

definition numeric_values :: "pandas \<Rightarrow> cell list \<Rightarrow> real list" where
  \<comment> \<open>\<open>pd.to_numeric(col, errors='coerce').dropna()\<close>\<close>
  "numeric_values P cs = concat (map (\<lambda>c. case to_numeric P c of None \<Rightarrow> [] | Some x \<Rightarrow> [x]) cs)"

definition list_max :: "real list \<Rightarrow> real" where
  "list_max xs = fold max (tl xs) (hd xs)"

definition list_min :: "real list \<Rightarrow> real" where
  "list_min xs = fold min (tl xs) (hd xs)"

definition is_regex_meta :: "char \<Rightarrow> bool" where
  "is_regex_meta c = (c \<in> set ''.^$*+?{}[]|()'' \<or> c = CHR 0x5C)"

definition str_contains :: "pandas \<Rightarrow> string \<Rightarrow> string \<Rightarrow> bool option" where
  \<comment> \<open>\<open>str.contains(pat)\<close> on one text: a search for a regular expression, which for a
      pattern without metacharacters is containment\<close>
  "str_contains P pat s =
     (if list_ex is_regex_meta pat then regex_search P pat s else Some (py_in pat s))"

definition select_contains :: "pandas \<Rightarrow> table \<Rightarrow> string \<Rightarrow> string \<Rightarrow> bool list option" where
  \<comment> \<open>\<open>df[col].astype(str).str.lower().str.contains(pat, na=False)\<close>: the mask, or \<open>None\<close>
      when the search raises\<close>
  "select_contains P t col pat =
     (let hits = map (\<lambda>c. str_contains P pat (lower (cell_str P c))) (col_values t col)
      in if None \<in> set hits then None else Some (map the hits))"

definition masked :: "bool list \<Rightarrow> 'a list \<Rightarrow> 'a list" where
  "masked msk xs = map snd (filter fst (zip msk xs))"

fun str_nat :: "nat \<Rightarrow> string" where
  "str_nat n = (if n < 10 then [char_of (48 + n)] else str_nat (n div 10) @ [char_of (48 + n mod 10)])"

definition str_int :: "int \<Rightarrow> string" where
  \<comment> \<open>\<open>str(n)\<close> on an integer\<close>
  "str_int n = (if n < 0 then CHR ''-'' # str_nat (nat (- n)) else str_nat (nat n))"

definition int_of_string :: "string \<Rightarrow> int option" where
  \<comment> \<open>\<open>int(s)\<close> on a text: blanks around an optional sign and decimal digits\<close>
  "int_of_string s =
     (let t = strip s;
          (neg, ds) = (case t of
                         c # cs \<Rightarrow> if c = CHR ''-'' then (True, cs)
                                   else if c = CHR ''+'' then (False, cs) else (False, t)
                       | [] \<Rightarrow> (False, []))
      in if ds \<noteq> [] \<and> list_all is_digit ds
         then Some (if neg then - int_of_digits ds else int_of_digits ds) else None)"

definition split_at :: "char \<Rightarrow> string \<Rightarrow> string list" where
  \<comment> \<open>\<open>s.split(c)\<close>\<close>
  "split_at c s = foldr (\<lambda>x acc. if x = c then [] # acc else (x # hd acc) # tl acc) s [[]]"

definition upper :: "string \<Rightarrow> string" where
  "upper s = map upper_char s"

section \<open>Citations\<close>

text \<open>The time stamp of a citation is the time of the call and is left out.\<close>

record citation =
  cit_dataset :: string
  cit_query_type :: string
  cit_points :: nat
  cit_columns :: "string list"

definition citation_add ::
  "citation list \<Rightarrow> string \<Rightarrow> string \<Rightarrow> nat \<Rightarrow> string list \<Rightarrow> citation list" where
  "citation_add cits name qt n cols =
     cits @ [\<lparr>cit_dataset = name, cit_query_type = qt, cit_points = n, cit_columns = cols\<rparr>]"

section \<open>The rainfall executor (analyzer.py, \<open>query_rainfall\<close>)\<close>

definition month_names :: "string list" where
  "month_names = [''JAN'', ''FEB'', ''MAR'', ''APR'', ''MAY'', ''JUN'', ''JUL'', ''AUG'',
                  ''SEP'', ''OCT'', ''NOV'', ''DEC'']"

definition all_requested :: "parsed_query \<Rightarrow> bool" where
  \<comment> \<open>\<open>'all' in [p.lower() for p in parsed_locs]\<close>\<close>
  "all_requested parsed = (''all'' \<in> set (map lower (locations parsed)))"

definition candidate_locs :: "pandas \<Rightarrow> parsed_query \<Rightarrow> table \<Rightarrow> string \<Rightarrow> string list" where
  "candidate_locs P parsed t loc_col =
     (if all_requested parsed
      then map (cell_str P) (unique (dropna (col_values t loc_col)))
      else locations parsed)"

text \<open>
  The annual column: a column found by name, or else the sum of the month columns, added
  to the table as \<open>__ANNUAL__\<close>. The sum stands outside every \<open>try\<close>.
\<close>

definition with_annual :: "pandas \<Rightarrow> table \<Rightarrow> py_error + table \<times> string option" where
  "with_annual P t =
     (case find_column (columns t)
             [''annual'', ''annual rainfall'', ''annual_mm'', ''annual_rainfall'', ''total''] of
        Some c \<Rightarrow> Inr (t, Some c)
      | None \<Rightarrow>
          (let months = filter (\<lambda>c. upper (strip c) \<in> set month_names) (columns t) in
           if months = [] then Inr (t, None)
           else
             (let row_sums = map (\<lambda>r. row_sum P (map (\<lambda>m. cell_of t m r) months)) (rows t) in
              if None \<in> set row_sums then Inl TypeError
              else Inr (\<lparr>columns = columns t @ [''__ANNUAL__''],
                         rows = map (\<lambda>(r, s). r @ [the s]) (zip (rows t) row_sums)\<rparr>,
                        Some ''__ANNUAL__''))))"

definition max_numeric :: "pandas \<Rightarrow> cell list \<Rightarrow> real option" where
  \<comment> \<open>\<open>pd.to_numeric(col, errors='coerce').max()\<close>; \<open>None\<close> is \<open>NaN\<close>\<close>
  "max_numeric P cs =
     (let vs = numeric_values P cs in if vs = [] then None else Some (list_max vs))"

definition year_at_least :: "pandas \<Rightarrow> table \<Rightarrow> string \<Rightarrow> real \<Rightarrow> cell list \<Rightarrow> bool" where
  \<comment> \<open>\<open>pd.to_numeric(year, errors='coerce') >= bound\<close>, false on \<open>NaN\<close>\<close>
  "year_at_least P t year_col bound r =
     (case to_numeric P (cell_of t year_col r) of None \<Rightarrow> False | Some y \<Rightarrow> y \<ge> bound)"

definition apply_time_window ::
  "pandas \<Rightarrow> parsed_query \<Rightarrow> table \<Rightarrow> string option \<Rightarrow> cell list list
     \<Rightarrow> py_error + cell list list" where
  "apply_time_window P parsed t year_col sel =
     (let tp = time_period parsed in
      case year_col of
        None \<Rightarrow> Inr sel
      | Some yc \<Rightarrow>
          if \<not> prefix ''last_'' tp then Inr sel
          else
            (case max_numeric P (col_values t yc) of
               None \<Rightarrow> Inr sel
             | Some max_year \<Rightarrow>
                 (case int_of_string (split_at CHR ''_'' tp ! 1) of
                    None \<Rightarrow> Inl ValueError
                  | Some n_span \<Rightarrow>
                      Inr (filter (year_at_least P t yc (max_year - real_of_int n_span + 1)) sel))))"

definition apply_years :: "pandas \<Rightarrow> parsed_query \<Rightarrow> table \<Rightarrow> string option \<Rightarrow> cell list list
     \<Rightarrow> cell list list" where
  \<comment> \<open>\<open>sel[sel[year_col].astype(str).isin([str(y) for y in years])]\<close>\<close>
  "apply_years P parsed t year_col sel =
     (case year_col of
        None \<Rightarrow> sel
      | Some yc \<Rightarrow>
          if years parsed = [] then sel
          else filter (\<lambda>r. cell_str P (cell_of t yc r) \<in> set (map str_int (years parsed))) sel)"

type_synonym rain_state = "rain_results \<times> citation list"

text \<open>
  The body of the loop over the candidate locations. Every \<open>continue\<close>, and every
  exception caught by the \<open>try\<close>, leaves results and citations as they are.
\<close>

definition rainfall_for_loc ::
  "pandas \<Rightarrow> parsed_query \<Rightarrow> string \<Rightarrow> table \<Rightarrow> string \<Rightarrow> string option \<Rightarrow> string
     \<Rightarrow> string \<Rightarrow> rain_state \<Rightarrow> rain_state" where
  "rainfall_for_loc P parsed name t loc_col year_col annual_col loc st =
     (if lower loc = ''all'' then st
      else
        (case select_contains P t loc_col (lower loc) of
           None \<Rightarrow> st
         | Some msk \<Rightarrow>
             (let sel = masked msk (rows t) in
              if sel = [] then st
              else
                (case apply_time_window P parsed t year_col (apply_years P parsed t year_col sel) of
                   Inl e \<Rightarrow> st
                 | Inr sel2 \<Rightarrow>
                     if sel2 = [] then st
                     else
                       (let annual_vals = numeric_values P (map (cell_of t annual_col) sel2) in
                        if annual_vals = [] then st
                        else
                          (case (case year_col of
                                   None \<Rightarrow> Some ''All''
                                 | Some yc \<Rightarrow> min_max_str P (map (cell_of t yc) sel2)) of
                             None \<Rightarrow> st
                           | Some yrs \<Rightarrow>
                               (dict_set (fst st) loc
                                  \<lparr>rainfall_avg = mean annual_vals,
                                   rainfall_min = list_min annual_vals,
                                   rainfall_max = list_max annual_vals,
                                   rain_points = length annual_vals,
                                   rain_years = yrs,
                                   rain_source = name\<rparr>,
                                citation_add (snd st) name (''rainfall stats for '' @ loc)
                                  (length annual_vals)
                                  (if year_col \<noteq> None then [loc_col, annual_col]
                                   else [loc_col]))))))))"

definition query_rainfall_ds ::
  "pandas \<Rightarrow> parsed_query \<Rightarrow> dataset_info \<Rightarrow> rain_state \<Rightarrow> py_error + rain_state" where
  "query_rainfall_ds P parsed ds st =
     (let loc_col = find_column (columns (df ds))
                      [''subdiv'', ''subdivision'', ''state'', ''region'', ''district''];
          year_col = find_column (columns (df ds)) [''year'']
      in case with_annual P (df ds) of
           Inl e \<Rightarrow> Inl e
         | Inr (t, annual_col) \<Rightarrow>
             (case (loc_col, annual_col) of
                (Some lc, Some ac) \<Rightarrow>
                  Inr (fold (rainfall_for_loc P parsed (ds_name ds) t lc year_col ac)
                         (candidate_locs P parsed t lc) st)
              | _ \<Rightarrow> Inr st))"

fun query_rainfall_loop ::
  "pandas \<Rightarrow> parsed_query \<Rightarrow> dataset_info list \<Rightarrow> rain_state \<Rightarrow> py_error + rain_state" where
  "query_rainfall_loop P parsed [] st = Inr st"
| "query_rainfall_loop P parsed (ds # dss) st =
     (case query_rainfall_ds P parsed ds st of
        Inl e \<Rightarrow> Inl e
      | Inr st' \<Rightarrow> query_rainfall_loop P parsed dss st')"

definition query_rainfall ::
  "pandas \<Rightarrow> parsed_query \<Rightarrow> datasets \<Rightarrow> citation list \<Rightarrow> py_error + rain_state" where
  "query_rainfall P parsed dsets cits = query_rainfall_loop P parsed (rainfall dsets) ([], cits)"

section \<open>The crop executor (analyzer.py, \<open>query_crops\<close>)\<close>

type_synonym crop_state = "crop_results \<times> citation list"

definition crop_mask ::
  "pandas \<Rightarrow> table \<Rightarrow> string \<Rightarrow> string option \<Rightarrow> string \<Rightarrow> string \<Rightarrow> bool list option" where
  \<comment> \<open>\<open>mask_loc & mask_crop\<close> when there is a crop column, \<open>mask_loc\<close> otherwise\<close>
  "crop_mask P t loc_col crop_col loc crp =
     (case select_contains P t loc_col (lower loc) of
        None \<Rightarrow> None
      | Some mask_loc \<Rightarrow>
          (case crop_col of
             None \<Rightarrow> Some mask_loc
           | Some cc \<Rightarrow>
               (case select_contains P t cc (lower crp) of
                  None \<Rightarrow> None
                | Some mask_crop \<Rightarrow> Some (map (\<lambda>(a, b). a \<and> b) (zip mask_loc mask_crop)))))"

definition crops_for_pair ::
  "pandas \<Rightarrow> string \<Rightarrow> table \<Rightarrow> string \<Rightarrow> string option \<Rightarrow> string \<Rightarrow> string option
     \<Rightarrow> string \<Rightarrow> string \<Rightarrow> crop_state \<Rightarrow> crop_state" where
  "crops_for_pair P name t loc_col crop_col production_col area_col loc crp st =
     (if lower loc = ''all'' then st
      else
        (case crop_mask P t loc_col crop_col loc crp of
           None \<Rightarrow> st
         | Some msk \<Rightarrow>
             (let sel = masked msk (rows t) in
              if sel = [] then st
              else
                (let prod_series = numeric_values P (map (cell_of t production_col) sel) in
                 if prod_series = [] then st
                 else
                   (let area_sum =
                          (case area_col of
                             None \<Rightarrow> None
                           | Some ac \<Rightarrow>
                               if dropna (map (cell_of t ac) sel) \<noteq> []
                               then Some (sum_list (numeric_values P (map (cell_of t ac) sel)))
                               else None)
                    in (dict_set (fst st) (loc @ ''_'' @ crp)
                          \<lparr>crop_location = loc, crop_name = crp,
                           production_total = sum_list prod_series,
                           production_avg = mean prod_series,
                           crop_area = area_sum,
                           crop_points = length prod_series,
                           crop_source = name\<rparr>,
                        citation_add (snd st) name (''production for '' @ crp @ '' in '' @ loc)
                          (length prod_series)
                          ([loc_col, production_col]
                           @ (case crop_col of None \<Rightarrow> [] | Some cc \<Rightarrow> [cc])
                           @ (case area_col of None \<Rightarrow> [] | Some ac \<Rightarrow> [ac]))))))))"

definition production_column :: "string list \<Rightarrow> string option" where
  "production_column cols =
     (case find_column cols [''production'', ''production_in'', ''production_tonnes'',
                             ''production_tonnes''] of
        Some c \<Rightarrow> Some c
      | None \<Rightarrow>
          (case filter (\<lambda>c. py_in ''production'' (lower c)) cols of
             [] \<Rightarrow> None
           | c # _ \<Rightarrow> Some c))"

definition crop_list :: "pandas \<Rightarrow> parsed_query \<Rightarrow> table \<Rightarrow> string option \<Rightarrow> string list" where
  \<comment> \<open>the crops of the query, or else up to ten crops of the crop column\<close>
  "crop_list P parsed t crop_col =
     (case crop_col of
        None \<Rightarrow> parsed_query.crops parsed
      | Some cc \<Rightarrow>
          if parsed_query.crops parsed = []
          then map (cell_str P) (take 10 (unique (dropna (col_values t cc))))
          else parsed_query.crops parsed)"

definition query_crops_ds ::
  "pandas \<Rightarrow> parsed_query \<Rightarrow> dataset_info \<Rightarrow> crop_state \<Rightarrow> crop_state" where
  "query_crops_ds P parsed ds st =
     (let t = df ds;
          district_col = find_column (columns t) [''district'', ''district name''];
          state_col = find_column (columns t) [''state'', ''state name''];
          crop_col = find_column (columns t) [''crop'', ''crop name'', ''crop_type''];
          production_col = production_column (columns t);
          area_col = find_column (columns t) [''area'', ''area_in'', ''area_hectares'',
                                              ''area (ha)''];
          loc_col = (case district_col of Some c \<Rightarrow> Some c | None \<Rightarrow> state_col)
      in case (loc_col, production_col) of
           (Some lc, Some pc) \<Rightarrow>
             fold (\<lambda>loc. fold (crops_for_pair P (ds_name ds) t lc crop_col pc area_col loc)
                              (crop_list P parsed t crop_col))
                  (candidate_locs P parsed t lc) st
         | _ \<Rightarrow> st)"

definition query_crops ::
  "pandas \<Rightarrow> parsed_query \<Rightarrow> datasets \<Rightarrow> citation list \<Rightarrow> crop_state" where
  "query_crops P parsed dsets cits = fold (query_crops_ds P parsed) (crops dsets) ([], cits)"

section \<open>The rainfall executor of app.py (\<open>query_rainfall_data\<close>)\<close>

type_synonym app_rain_state = "app_rain_results \<times> citation list"

definition first_present :: "string list \<Rightarrow> string list \<Rightarrow> string option" where
  \<comment> \<open>\<open>next((col for col in names if col in df.columns), None)\<close>\<close>
  "first_present names cols = find (\<lambda>c. c \<in> set cols) names"

definition is_text :: "cell \<Rightarrow> bool" where
  "is_text c = (case c of Txt s \<Rightarrow> True | _ \<Rightarrow> False)"

definition raw_numbers :: "cell list \<Rightarrow> real list" where
  "raw_numbers cs = concat (map (\<lambda>c. case c of Num x \<Rightarrow> [x] | _ \<Rightarrow> []) cs)"

definition raw_at_least :: "table \<Rightarrow> string \<Rightarrow> real \<Rightarrow> cell list \<Rightarrow> bool" where
  \<comment> \<open>\<open>location_data[year_col] >= bound\<close> on a numeric column, false on \<open>NaN\<close>\<close>
  "raw_at_least t year_col bound r =
     (case cell_of t year_col r of Num y \<Rightarrow> y \<ge> bound | _ \<Rightarrow> False)"

text \<open>
  \<open>max_year = df[year_col].max()\<close> and the rows with \<open>year >= max_year - n\<close>. With a text in
  the year column the maximum or the subtraction raises a \<open>TypeError\<close>; with no number in
  it the maximum is \<open>NaN\<close> and no row passes.
\<close>

definition last_n_rows :: "table \<Rightarrow> string \<Rightarrow> real \<Rightarrow> cell list list \<Rightarrow> py_error + cell list list" where
  "last_n_rows t year_col n sel =
     (if list_ex is_text (col_values t year_col) then Inl TypeError
      else
        (let vs = raw_numbers (col_values t year_col) in
         if vs = [] then Inr []
         else Inr (filter (raw_at_least t year_col (list_max vs - n)) sel)))"

definition app_time_filter ::
  "parsed_query \<Rightarrow> table \<Rightarrow> string option \<Rightarrow> cell list list \<Rightarrow> py_error + cell list list" where
  "app_time_filter parsed t year_col sel =
     (case year_col of
        None \<Rightarrow> Inr sel
      | Some yc \<Rightarrow>
          if time_period parsed = ''last_5'' then last_n_rows t yc 5 sel
          else if time_period parsed = ''last_10'' then last_n_rows t yc 10 sel
          else if time_period parsed = ''last_20'' then last_n_rows t yc 20 sel
          else if years parsed \<noteq> [] then
            Inr (filter (\<lambda>r. case cell_of t yc r of
                                Num y \<Rightarrow> y \<in> set (map real_of_int (years parsed))
                              | _ \<Rightarrow> False) sel)
          else Inr sel)"

definition app_all_mode :: "parsed_query \<Rightarrow> bool" where
  \<comment> \<open>\<open>parsed.get('locations') == ['all'] or 'all' in parsed.get('locations', [])\<close>\<close>
  "app_all_mode parsed = (locations parsed = [''all''] \<or> ''all'' \<in> set (locations parsed))"

definition app_select ::
  "pandas \<Rightarrow> parsed_query \<Rightarrow> table \<Rightarrow> string \<Rightarrow> cell \<Rightarrow> cell list list option" where
  \<comment> \<open>the rows for a location: equal to it for an \<open>all\<close> query, containing it otherwise\<close>
  "app_select P parsed t location_col location =
     (if app_all_mode parsed then
        Some (filter (\<lambda>r. cell_of t location_col r \<noteq> Null
                           \<and> cell_of t location_col r = location) (rows t))
      else
        (let hits = map (\<lambda>c. case c of
                                Txt s \<Rightarrow> str_contains P (lower (cell_str P location)) (lower s)
                              | _ \<Rightarrow> Some False) (col_values t location_col)
         in if None \<in> set hits then None else Some (masked (map the hits) (rows t))))"

definition raw_stats ::
  "pandas \<Rightarrow> cell list \<Rightarrow> (real option \<times> real option \<times> real option) option" where
  \<comment> \<open>\<open>mean()\<close>, \<open>max()\<close> and \<open>min()\<close> of a column: \<open>NaN\<close> without numbers\<close>
  "raw_stats P cs =
     (if list_ex is_text cs then text_stats P cs
      else
        (let vs = raw_numbers cs in
         if vs = [] then Some (None, None, None)
         else Some (Some (mean vs), Some (list_max vs), Some (list_min vs))))"

definition app_rainfall_for_loc ::
  "pandas \<Rightarrow> parsed_query \<Rightarrow> string \<Rightarrow> table \<Rightarrow> string \<Rightarrow> string option \<Rightarrow> string
     \<Rightarrow> cell \<Rightarrow> app_rain_state \<Rightarrow> app_rain_state" where
  "app_rainfall_for_loc P parsed name t location_col year_col annual_col location st =
     (if location = Txt ''all'' then st
      else
        (case app_select P parsed t location_col location of
           None \<Rightarrow> st
         | Some location_data \<Rightarrow>
             if location_data = [] then st
             else
               (case app_time_filter parsed t year_col location_data of
                  Inl e \<Rightarrow> st
                | Inr location_data2 \<Rightarrow>
                    if location_data2 = [] then st
                    else
                      (let actual_name = cell_of t location_col (hd location_data2) in
                       case raw_stats P (map (cell_of t annual_col) location_data2) of
                         None \<Rightarrow> st
                       | Some (avg, mx, mn) \<Rightarrow>
                           (case (case year_col of
                                    None \<Rightarrow> Some ''All years''
                                  | Some yc \<Rightarrow> min_max_str P (map (cell_of t yc) location_data2)) of
                              None \<Rightarrow> st
                            | Some year_range \<Rightarrow>
                                (dict_set (fst st) actual_name
                                   \<lparr>a_rainfall_avg = avg, a_rainfall_max = mx,
                                    a_rainfall_min = mn,
                                    a_rain_points = length location_data2,
                                    a_rain_years = year_range, a_rain_source = name\<rparr>,
                                 citation_add (snd st) name
                                   (''Rainfall analysis for '' @ cell_str P actual_name)
                                   (length location_data2)
                                   ([location_col, annual_col]
                                    @ (case year_col of None \<Rightarrow> [] | Some yc \<Rightarrow> [yc]))))))))"

text \<open>A dataset of app.py is a name with its table.\<close>

definition query_rainfall_data_ds ::
  "pandas \<Rightarrow> parsed_query \<Rightarrow> string \<times> table \<Rightarrow> app_rain_state \<Rightarrow> app_rain_state" where
  "query_rainfall_data_ds P parsed ds st =
     (let name = fst ds; t = snd ds;
          location_col = first_present [''SUBDIVISION'', ''State'', ''STATE'', ''District'',
                                        ''DISTRICT'', ''Region''] (columns t);
          year_col = first_present [''YEAR'', ''Year''] (columns t);
          annual_col = first_present [''ANNUAL'', ''Annual'', ''Total'', ''Rainfall''] (columns t)
      in case (location_col, annual_col) of
           (Some lc, Some ac) \<Rightarrow>
             fold (app_rainfall_for_loc P parsed name t lc year_col ac)
                  (if app_all_mode parsed then unique (col_values t lc)
                   else map Txt (locations parsed)) st
         | _ \<Rightarrow> st)"

definition query_rainfall_data ::
  "pandas \<Rightarrow> parsed_query \<Rightarrow> (string \<times> table) list \<Rightarrow> citation list \<Rightarrow> app_rain_state" where
  "query_rainfall_data P parsed rainfall_datasets cits =
     fold (query_rainfall_data_ds P parsed) rainfall_datasets ([], cits)"

section \<open>Location labels of a table\<close>

text \<open>
  The labels a rainfall table holds for its locations: the texts of the values of the
  location column that are not missing (analyzer.py), and the values of the location
  column (app.py).
\<close>

definition location_labels :: "pandas \<Rightarrow> dataset_info \<Rightarrow> string list" where
  "location_labels P ds =
     (case (with_annual P (df ds),
            find_column (columns (df ds))
              [''subdiv'', ''subdivision'', ''state'', ''region'', ''district'']) of
        (Inr (t, ac), Some lc) \<Rightarrow> map (cell_str P) (dropna (col_values t lc))
      | _ \<Rightarrow> [])"

definition app_location_labels :: "string \<times> table \<Rightarrow> cell list" where
  "app_location_labels ds =
     (case first_present [''SUBDIVISION'', ''State'', ''STATE'', ''District'', ''DISTRICT'',
                          ''Region''] (columns (snd ds)) of
        Some lc \<Rightarrow> col_values (snd ds) lc
      | None \<Rightarrow> [])"

section \<open>Example inputs\<close>

definition demo_mixed :: table where
  "demo_mixed = \<lparr>columns = [''Rainfall'', '' District ''],
                  rows = [[Num 600, Txt ''Mysore'']]\<rparr>"

definition demo_rain_stat :: "real \<Rightarrow> rain_stat" where
  "demo_rain_stat a = \<lparr>rainfall_avg = a, rainfall_min = a, rainfall_max = a, rain_points = 1,
     rain_years = ''2016-2016'', rain_source = ''rain.csv''\<rparr>"

definition demo_ranking_input :: rain_results where
  "demo_ranking_input = [(''A'', demo_rain_stat 500), (''B'', demo_rain_stat 1000),
     (''C'', demo_rain_stat 1000), (''D'', demo_rain_stat 200)]"

definition demo_top2 :: parsed_query where
  "demo_top2 = (fallback_parse_question ''top 2 subdivisions by rainfall'')"

definition demo_crop_stat :: "string \<Rightarrow> string \<Rightarrow> real \<Rightarrow> crop_stat" where
  "demo_crop_stat loc crp tot = \<lparr>crop_location = loc, crop_name = crp,
     production_total = tot, production_avg = tot, crop_area = None, crop_points = 1,
     crop_source = ''crops.csv''\<rparr>"

definition demo_two_rain :: rain_results where
  "demo_two_rain = [(''Mysore'', demo_rain_stat 500), (''Hassan'', demo_rain_stat 1000)]"

definition demo_two_crops :: crop_results where
  "demo_two_crops = [(''Mysore_maize'', demo_crop_stat ''Mysore'' ''maize'' 10),
                     (''Hassan_maize'', demo_crop_stat ''Hassan'' ''maize'' 20)]"

definition demo_correlate :: parsed_query where
  "demo_correlate = fallback_parse_question ''correlate rainfall with maize production''"

definition demo_one_rain :: rain_results where
  "demo_one_rain = [(''Karnataka'', demo_rain_stat 900)]"

definition demo_three_crops :: crop_results where
  "demo_three_crops = [(''Karnataka_maize'', demo_crop_stat ''Karnataka'' ''maize'' 10),
                       (''Karnataka_ragi'', demo_crop_stat ''Karnataka'' ''ragi'' 20),
                       (''Karnataka_rice'', demo_crop_stat ''Karnataka'' ''rice'' 30)]"

definition demo_app_rain :: app_rain_results where
  "demo_app_rain =
     [(Txt ''PUNJAB'', \<lparr>a_rainfall_avg = Some 600, a_rainfall_max = Some 700,
         a_rainfall_min = Some 500, a_rain_points = 800, a_rain_years = ''1901-2017'',
         a_rain_source = ''rain.csv''\<rparr>),
      (Txt ''KERALA'', \<lparr>a_rainfall_avg = Some 2900, a_rainfall_max = Some 3500,
         a_rainfall_min = Some 2100, a_rain_points = 800, a_rain_years = ''1901-2017'',
         a_rain_source = ''rain.csv''\<rparr>)]"

definition demo_app_crops :: app_crop_results where
  "demo_app_crops =
     [(''Punjab_rice'', \<lparr>a_crop = ''rice'', a_location = Txt ''Punjab'',
         a_production_total = Some 100, a_production_avg = Some 50, a_area = None,
         a_crop_points = 2, a_crop_source = ''crops.csv''\<rparr>)]"

definition demo_app_meta :: "(string \<times> app_meta) list" where
  "demo_app_meta = [(''rain.csv'', \<lparr>am_type = Rainfall, am_quality = ''high''\<rparr>),
                    (''crops.csv'', \<lparr>am_type = Crop, am_quality = ''high''\<rparr>)]"

definition demo_compare :: parsed_query where
  "demo_compare = fallback_parse_question ''compare rainfall and rice in punjab and kerala''"

text \<open>
  An instance of the pandas operations on plain data: whole numbers print as digits,
  digit strings read as numbers, patterns with metacharacters do not compile, the sum of
  a row adds its numbers, and the year range is not printed.
\<close>

definition plain_pandas :: pandas where
  "plain_pandas =
     \<lparr>num_str = (\<lambda>x. str_int \<lfloor>x\<rfloor>),
      read_num = (\<lambda>s. if s \<noteq> [] \<and> list_all is_digit s
                       then Some (real_of_int (int_of_digits s)) else None),
      regex_search = (\<lambda>pat s. None),
      row_sum = (\<lambda>cs. Some (Num (sum_list (raw_numbers cs)))),
      min_max_str = (\<lambda>cs. Some ''?''),
      text_stats = (\<lambda>cs. None)\<rparr>"

definition demo_rain_table :: table where
  "demo_rain_table =
     \<lparr>columns = [''SUBDIVISION'', ''YEAR'', ''ANNUAL''],
      rows = [[Txt ''PUNJAB'', Num 2011, Num 500],
              [Txt ''PUNJAB'', Num 2012, Num 510],
              [Txt ''PUNJAB'', Num 2013, Num 520],
              [Txt ''PUNJAB'', Num 2014, Num 530],
              [Txt ''PUNJAB'', Num 2015, Num 540],
              [Txt ''PUNJAB'', Num 2016, Num 550],
              [Txt ''PUNJAB'', Num 2017, Num 560]]\<rparr>"

definition demo_rain_ds :: dataset_info where
  "demo_rain_ds = \<lparr>ds_name = ''rain.csv'', df = demo_rain_table, ds_type = Rainfall,
                    null_pct = Some 0, records = 7\<rparr>"

definition demo_last5 :: parsed_query where
  "demo_last5 = fallback_parse_question ''rainfall in punjab in the last 5 years''"

definition demo_crop_table :: table where
  "demo_crop_table =
     \<lparr>columns = [''District'', ''Production''],
      rows = [[Txt ''Mysore'', Num 100], [Txt ''Mysore'', Num 200], [Txt ''Hassan'', Num 50]]\<rparr>"

definition demo_crop_ds :: dataset_info where
  "demo_crop_ds = \<lparr>ds_name = ''spice.csv'', df = demo_crop_table, ds_type = Crop,
                    null_pct = Some 0, records = 3\<rparr>"

definition demo_mysore :: parsed_query where
  "demo_mysore = fallback_parse_question ''production in mysore''"

definition demo_mysore_maize :: parsed_query where
  "demo_mysore_maize = fallback_parse_question ''maize production in mysore''"

definition demo_rain_datasets :: datasets where
  "demo_rain_datasets = \<lparr>rainfall = [demo_rain_ds], crops = [], metadata = []\<rparr>"

definition demo_punjab :: parsed_query where
  "demo_punjab = fallback_parse_question ''rainfall in punjab''"

section \<open>Properties of the parser\<close>

lemma findall_numbers_no_digit:
  "\<forall>c \<in> set s. \<not> is_digit c \<Longrightarrow> findall_numbers p s = []"
  by (induction s arbitrary: p) auto















text \<open>
  C6. A question parsed as a trend that needs crop data and no rainfall data is marked
  infeasible, with the reasoning that the crop datasets have no year column and hold
  snapshot data only, and with a non-empty rewritten query; every other question is
  feasible.
\<close>

theorem trend_on_crops_only_is_infeasible:
  "(action (fallback_parse_question question) = Trend
      \<and> needs_crops (fallback_parse_question question)
      \<and> \<not> needs_rainfall (fallback_parse_question question)
     \<longrightarrow> \<not> feasible (fallback_parse_question question)
        \<and> reasoning (fallback_parse_question question) = crop_trend_reasoning
        \<and> py_in ''no year column'' (reasoning (fallback_parse_question question))
        \<and> py_in ''snapshot'' (reasoning (fallback_parse_question question))
        \<and> rewritten_query (fallback_parse_question question) = Some crop_trend_rewrite
        \<and> crop_trend_rewrite \<noteq> [])
   \<and> (\<not> (action (fallback_parse_question question) = Trend
          \<and> needs_crops (fallback_parse_question question)
          \<and> \<not> needs_rainfall (fallback_parse_question question))
     \<longrightarrow> feasible (fallback_parse_question question))"
proof -
  have a: "py_in ''no year column'' crop_trend_reasoning" by code_simp
  have b: "py_in ''snapshot'' crop_trend_reasoning" by code_simp
  have c: "crop_trend_rewrite \<noteq> []" by (simp add: crop_trend_rewrite_def)
  show ?thesis using a b c
    by (auto simp: fallback_parse_question_def Let_def)
qed

theorem trend_on_crops_only_witness:
  "action (fallback_parse_question ''trend in maize production'') = Trend
   \<and> needs_crops (fallback_parse_question ''trend in maize production'')
   \<and> \<not> needs_rainfall (fallback_parse_question ''trend in maize production'')
   \<and> \<not> feasible (fallback_parse_question ''trend in maize production'')
   \<and> rewritten_query (fallback_parse_question ''trend in maize production'')
       = Some ''Show current crop production across districts (snapshot data)''
   \<and> action (fallback_parse_question ''rainfall trend in kerala'') = Trend
   \<and> feasible (fallback_parse_question ''rainfall trend in kerala'')"
proof -
  have a: "action (fallback_parse_question ''trend in maize production'') = Trend" by code_simp
  have b: "needs_crops (fallback_parse_question ''trend in maize production'')" by code_simp
  have c: "\<not> needs_rainfall (fallback_parse_question ''trend in maize production'')" by code_simp
  have d: "action (fallback_parse_question ''rainfall trend in kerala'') = Trend" by code_simp
  have e: "needs_rainfall (fallback_parse_question ''rainfall trend in kerala'')" by code_simp
  from trend_on_crops_only_is_infeasible[of "''trend in maize production''"] a b c
  have r1: "\<not> feasible (fallback_parse_question ''trend in maize production'')
      \<and> rewritten_query (fallback_parse_question ''trend in maize production'') = Some crop_trend_rewrite"
    by blast
  from trend_on_crops_only_is_infeasible[of "''rainfall trend in kerala''"] e
  have r2: "feasible (fallback_parse_question ''rainfall trend in kerala'')" by blast
  from a b c d r1 r2 show ?thesis by (simp add: crop_trend_rewrite_def)
qed

section \<open>Properties of the schema resolver\<close>

lemma dict_set_keys: "fst ` set (dict_set d k v) = insert k (fst ` set d)"
  by (induction d k v rule: dict_set.induct) auto

lemma dict_set_fresh: "k \<notin> fst ` set d \<Longrightarrow> dict_set d k v = d @ [(k, v)]"
  by (induction d k v rule: dict_set.induct) auto

lemma lower_map_keys_gen:
  "fst ` set (foldl (\<lambda>d c. dict_set d (lower c) c) d0 cols) = fst ` set d0 \<union> lower ` set cols"
  by (induction cols arbitrary: d0) (auto simp: dict_set_keys)

lemma lower_map_keys: "fst ` set (lower_map cols) = lower ` set cols"
  by (simp add: lower_map_def lower_map_keys_gen)

lemma lower_map_distinct_gen:
  "distinct (map lower cols) \<Longrightarrow> fst ` set d0 \<inter> lower ` set cols = {} \<Longrightarrow>
   foldl (\<lambda>d c. dict_set d (lower c) c) d0 cols = d0 @ map (\<lambda>c. (lower c, c)) cols"
proof (induction cols arbitrary: d0)
  case Nil
  then show ?case by simp
next
  case (Cons c cols)
  have fresh: "lower c \<notin> fst ` set d0" using Cons.prems(2) by auto
  have step: "dict_set d0 (lower c) c = d0 @ [(lower c, c)]"
    using fresh by (rule dict_set_fresh)
  have d: "distinct (map lower cols)" using Cons.prems(1) by simp
  have disj: "fst ` set (d0 @ [(lower c, c)]) \<inter> lower ` set cols = {}"
    using Cons.prems by auto
  show ?case using Cons.IH[OF d disj] step by simp
qed

lemma lower_map_distinct:
  "distinct (map lower cols) \<Longrightarrow> lower_map cols = map (\<lambda>c. (lower c, c)) cols"
  using lower_map_distinct_gen[of cols "[]"] by (simp add: lower_map_def)

lemma find_lower_pairs:
  "find (\<lambda>(col_lower, col_real). P col_lower) (map (\<lambda>c. (lower c, c)) cols)
     = map_option (\<lambda>c. (lower c, c)) (find (\<lambda>c. P (lower c)) cols)"
  by (induction cols) auto

lemma find_column_in_distinct:
  "find_column_in (map (\<lambda>c. (lower c, c)) cols) cands = resolve_spec cols cands"
  by (induction cands) (auto simp: find_lower_pairs split: option.splits)

lemma find_column_is_first_match:
  "distinct (map lower cols) \<Longrightarrow> find_column cols cands = resolve_spec cols cands"
  by (simp add: find_column_def lower_map_distinct find_column_in_distinct)

lemma find_column_in_none:
  "find_column_in lm cands = None \<longleftrightarrow>
     (\<forall>cand \<in> set cands. \<forall>k \<in> fst ` set lm. \<not> py_in (lower cand) k)"
proof (induction cands)
  case Nil
  then show ?case by simp
next
  case (Cons cand cands)
  have "find (\<lambda>(col_lower, col_real). py_in (lower cand) col_lower) lm = None
         \<longleftrightarrow> (\<forall>k \<in> fst ` set lm. \<not> py_in (lower cand) k)"
    by (auto simp: find_None_iff)
  with Cons show ?case by (auto split: option.splits)
qed

lemma find_column_none_iff:
  "find_column cols cands = None \<longleftrightarrow>
     (\<forall>cand \<in> set cands. \<forall>c \<in> set cols. \<not> py_in (lower cand) (lower c))"
  by (simp add: find_column_def find_column_in_none lower_map_keys)

text \<open>
  C8. The resolver is meant to return the first column, in declared order, that contains a
  candidate keyword. It does so when the lowercase column names are distinct
  (\<open>find_column_is_first_match\<close>), and it returns nothing exactly when no candidate is
  contained in any lowercase column name (\<open>find_column_none_iff\<close>). For columns \<open>Year\<close>
  and \<open>YEAR\<close>, which share their lowercase name, the dictionary of lowercase names keeps
  the later one: the resolver returns \<open>YEAR\<close>, where the first matching column is \<open>Year\<close>.
  On the columns \<open>Year\<close>, \<open>YEAR_x\<close> of the specification it returns \<open>Year\<close>.
\<close>

theorem find_column_returns_later_duplicate:
  "find_column [''Year'', ''YEAR''] [''year''] = Some ''YEAR''
   \<and> resolve_spec [''Year'', ''YEAR''] [''year''] = Some ''Year''
   \<and> find_column [''Year'', ''YEAR_x''] [''year''] = Some ''Year''"
  by code_simp

section \<open>Properties of the classifier\<close>

text \<open>
  C2 (as amended). Loading a table appends its descriptor to exactly one of the two lists.
  The rainfall keywords are tried first: a table whose columns match them is a rainfall
  table, also when the crop keywords match too; otherwise a match of the crop keywords
  makes it a crop table; only when neither set matches does the fallback decide, a month
  abbreviation among \<open>jan\<close>, \<open>feb\<close>, \<open>mar\<close>, \<open>apr\<close> giving rainfall and its absence crop.
\<close>

theorem load_one_assigns_one_category:
  "(is_rainfall_kw (cols_lower_of (map strip (columns t)))
      \<longrightarrow> (\<exists>info. rainfall (load_one d name t) = rainfall d @ [info]
                  \<and> ds_type info = Rainfall \<and> ds_name info = name)
          \<and> crops (load_one d name t) = crops d)
   \<and> (\<not> is_rainfall_kw (cols_lower_of (map strip (columns t)))
        \<and> is_crop_kw (cols_lower_of (map strip (columns t)))
      \<longrightarrow> (\<exists>info. crops (load_one d name t) = crops d @ [info]
                  \<and> ds_type info = Crop \<and> ds_name info = name)
          \<and> rainfall (load_one d name t) = rainfall d)
   \<and> (\<not> is_rainfall_kw (cols_lower_of (map strip (columns t)))
        \<and> \<not> is_crop_kw (cols_lower_of (map strip (columns t)))
        \<and> has_month_kw (cols_lower_of (map strip (columns t)))
      \<longrightarrow> (\<exists>info. rainfall (load_one d name t) = rainfall d @ [info]
                  \<and> ds_type info = Rainfall \<and> ds_name info = name)
          \<and> crops (load_one d name t) = crops d)
   \<and> (\<not> is_rainfall_kw (cols_lower_of (map strip (columns t)))
        \<and> \<not> is_crop_kw (cols_lower_of (map strip (columns t)))
        \<and> \<not> has_month_kw (cols_lower_of (map strip (columns t)))
      \<longrightarrow> (\<exists>info. crops (load_one d name t) = crops d @ [info]
                  \<and> ds_type info = Crop \<and> ds_name info = name)
          \<and> rainfall (load_one d name t) = rainfall d)
   \<and> length (rainfall (load_one d name t)) + length (crops (load_one d name t))
       = length (rainfall d) + length (crops d) + 1"
  by (auto simp: load_one_def classify_def strip_columns_def Let_def split: category.splits)

theorem load_one_witness:
  "is_rainfall_kw (cols_lower_of (map strip (columns demo_mixed)))
   \<and> is_crop_kw (cols_lower_of (map strip (columns demo_mixed)))
   \<and> map ds_type (rainfall (load_one empty_datasets ''a.csv'' demo_mixed)) = [Rainfall]
   \<and> crops (load_one empty_datasets ''a.csv'' demo_mixed) = []"
proof -
  have a: "is_rainfall_kw (cols_lower_of (map strip (columns demo_mixed)))"
    unfolding demo_mixed_def by code_simp
  have b: "is_crop_kw (cols_lower_of (map strip (columns demo_mixed)))"
    unfolding demo_mixed_def by code_simp
  from load_one_assigns_one_category[of demo_mixed empty_datasets "''a.csv''"] a
  obtain info where "rainfall (load_one empty_datasets ''a.csv'' demo_mixed)
        = rainfall empty_datasets @ [info]" "ds_type info = Rainfall"
     and "crops (load_one empty_datasets ''a.csv'' demo_mixed) = crops empty_datasets"
    by blast
  with a b show ?thesis by (simp add: empty_datasets_def)
qed

text \<open>
  C2 as stated fails: the columns \<open>Rainfall\<close>, \<open>District\<close> match both keyword sets and hold
  no month abbreviation, so the fallback rule would give crop, yet the table is classified
  as rainfall.
\<close>

theorem classify_both_counterexample:
  "\<not> (\<forall>cols. is_rainfall_kw (cols_lower_of cols) = is_crop_kw (cols_lower_of cols)
        \<longrightarrow> classify cols = (if has_month_kw (cols_lower_of cols) then Rainfall else Crop))"
proof
  assume a: "\<forall>cols. is_rainfall_kw (cols_lower_of cols) = is_crop_kw (cols_lower_of cols)
        \<longrightarrow> classify cols = (if has_month_kw (cols_lower_of cols) then Rainfall else Crop)"
  have r: "is_rainfall_kw (cols_lower_of [''Rainfall'', ''District''])" by code_simp
  have c: "is_crop_kw (cols_lower_of [''Rainfall'', ''District''])" by code_simp
  have m: "\<not> has_month_kw (cols_lower_of [''Rainfall'', ''District''])" by code_simp
  have k: "classify [''Rainfall'', ''District''] = Rainfall" by code_simp
  from a r c have "classify [''Rainfall'', ''District'']
      = (if has_month_kw (cols_lower_of [''Rainfall'', ''District'']) then Rainfall else Crop)"
    by blast
  with m k show False by simp
qed

section \<open>Properties of ranking\<close>

lemma py_sorted_is_ranking: "is_ranking key descending xs (py_sorted key descending xs)"
proof (cases descending)
  case True
  have "filter (\<lambda>e. key e = v) (rev (sort_key key (rev xs))) = filter (\<lambda>e. key e = v) xs" for v
  proof -
    have "filter (\<lambda>e. key e = v) (rev (sort_key key (rev xs)))
            = rev (filter (\<lambda>e. key e = v) (sort_key key (rev xs)))" by (simp add: rev_filter)
    also have "\<dots> = rev (filter (\<lambda>e. key e = v) (rev xs))" by (simp add: sort_key_stable)
    also have "\<dots> = filter (\<lambda>e. key e = v) xs" by (simp add: rev_filter)
    finally show ?thesis .
  qed
  with True show ?thesis by (simp add: is_ranking_def py_sorted_def rev_map)
next
  case False
  then show ?thesis by (simp add: is_ranking_def py_sorted_def sort_key_stable)
qed

lemma py_slice_to_nonneg: "0 \<le> n \<Longrightarrow> py_slice_to n xs = take (nat n) xs"
  by (simp add: py_slice_to_def)

text \<open>
  C4. For the actions top and bottom, each ranking is the result mapping in a stable order
  by its primary metric (average rainfall, total production), descending for top and
  ascending for bottom, entries with equal metric in their insertion order, truncated to
  the limit of the query (a count, so not negative). The summary of \<open>combine_and_analyze\<close>
  and the entries printed by the answer generator are that ranking.
\<close>

theorem ranking_is_stable_sort_truncated:
  assumes "0 \<le> limit parsed" and "action parsed = Top \<or> action parsed = Bottom"
  shows "\<exists>ranked_r ranked_c.
      is_ranking (\<lambda>e. rainfall_avg (snd e)) (action parsed = Top) rr ranked_r
    \<and> is_ranking (\<lambda>e. production_total (snd e)) (action parsed = Top) cr ranked_c
    \<and> sum_rainfall_rank (snd (combine_and_analyze parsed rr cr))
        = (if rr \<noteq> [] then Some (take (nat (limit parsed)) ranked_r) else None)
    \<and> sum_crop_rank (snd (combine_and_analyze parsed rr cr))
        = (if cr \<noteq> [] then Some (take (nat (limit parsed)) ranked_c) else None)
    \<and> generate_ranking_answer parsed rr cr (action parsed = Bottom)
        = (if rr \<noteq> [] then
             rain_rank_intro (limit parsed) (action parsed = Bottom)
             # map rain_rank_entry (enumerate 1 (take (nat (limit parsed)) ranked_r))
           else [])
          @ (if cr \<noteq> [] then
               (if rr \<noteq> [] then [Line ''#### Crop Production Rankings'' []] else [])
               @ crop_rank_intro (limit parsed) (action parsed = Bottom)
               # map crop_rank_entry (enumerate 1 (take (nat (limit parsed)) ranked_c))
             else [])"
proof -
  let ?d = "action parsed = Top"
  let ?r = "py_sorted (\<lambda>e. rainfall_avg (snd e)) ?d rr"
  let ?c = "py_sorted (\<lambda>e. production_total (snd e)) ?d cr"
  have asc: "(\<not> (action parsed = Bottom)) = (action parsed = Top)" using assms(2) by auto
  have r: "is_ranking (\<lambda>e. rainfall_avg (snd e)) ?d rr ?r" by (rule py_sorted_is_ranking)
  have c: "is_ranking (\<lambda>e. production_total (snd e)) ?d cr ?c" by (rule py_sorted_is_ranking)
  have s1: "sum_rainfall_rank (snd (combine_and_analyze parsed rr cr))
        = (if rr \<noteq> [] then Some (take (nat (limit parsed)) ?r) else None)"
    using assms
    by (auto simp: combine_and_analyze_def analyze_ranking_def rank_rainfall_def
        py_slice_to_nonneg Let_def empty_summary_def split: prod.splits)
  have s2: "sum_crop_rank (snd (combine_and_analyze parsed rr cr))
        = (if cr \<noteq> [] then Some (take (nat (limit parsed)) ?c) else None)"
    using assms
    by (auto simp: combine_and_analyze_def analyze_ranking_def rank_crops_def
        py_slice_to_nonneg Let_def empty_summary_def split: prod.splits)
  have s3: "generate_ranking_answer parsed rr cr (action parsed = Bottom)
        = (if rr \<noteq> [] then
             rain_rank_intro (limit parsed) (action parsed = Bottom)
             # map rain_rank_entry (enumerate 1 (take (nat (limit parsed)) ?r))
           else [])
          @ (if cr \<noteq> [] then
               (if rr \<noteq> [] then [Line ''#### Crop Production Rankings'' []] else [])
               @ crop_rank_intro (limit parsed) (action parsed = Bottom)
               # map crop_rank_entry (enumerate 1 (take (nat (limit parsed)) ?c))
             else [])"
    using assms(1)
    by (simp add: generate_ranking_answer_def rank_rainfall_def rank_crops_def
        py_slice_to_nonneg Let_def asc)
  from r c s1 s2 s3 show ?thesis by blast
qed

theorem ranking_witness:
  "0 \<le> limit demo_top2 \<and> action demo_top2 = Top
   \<and> map fst (the (sum_rainfall_rank (snd (combine_and_analyze demo_top2 demo_ranking_input []))))
       = [''B'', ''C'']
   \<and> (\<exists>ranked_r. is_ranking (\<lambda>e. rainfall_avg (snd e)) True demo_ranking_input ranked_r
        \<and> sum_rainfall_rank (snd (combine_and_analyze demo_top2 demo_ranking_input []))
            = Some (take 2 ranked_r))"
proof -
  have l: "limit demo_top2 = 2" unfolding demo_top2_def by code_simp
  have a: "action demo_top2 = Top" unfolding demo_top2_def by code_simp
  have ne: "demo_ranking_input \<noteq> []" by (simp add: demo_ranking_input_def)
  have v: "map fst (the (sum_rainfall_rank (snd (combine_and_analyze demo_top2 demo_ranking_input []))))
       = [''B'', ''C'']"
    using l a
    by (simp add: combine_and_analyze_def analyze_ranking_def rank_rainfall_def rank_crops_def
        py_slice_to_def py_sorted_def demo_ranking_input_def demo_rain_stat_def Let_def
        empty_summary_def numeral_2_eq_2)
  from ranking_is_stable_sort_truncated[of demo_top2 demo_ranking_input "[]"] l a ne
  have "\<exists>ranked_r. is_ranking (\<lambda>e. rainfall_avg (snd e)) True demo_ranking_input ranked_r
        \<and> sum_rainfall_rank (snd (combine_and_analyze demo_top2 demo_ranking_input []))
            = Some (take 2 ranked_r)"
    by auto
  with l a v show ?thesis by simp
qed

section \<open>Properties of the correlation analysis\<close>

lemma demo_pairs: "matched_pairs demo_two_rain demo_two_crops =
   [(''Mysore'', demo_rain_stat 500, demo_crop_stat ''Mysore'' ''maize'' 10),
    (''Hassan'', demo_rain_stat 1000, demo_crop_stat ''Hassan'' ''maize'' 20)]"
proof -
  have a: "locality_match ''Mysore'' ''Mysore''" by code_simp
  have b: "\<not> locality_match ''Mysore'' ''Hassan''" by code_simp
  have c: "\<not> locality_match ''Hassan'' ''Mysore''" by code_simp
  have d: "locality_match ''Hassan'' ''Hassan''" by code_simp
  show ?thesis using a b c d
    by (simp add: matched_pairs_def demo_two_rain_def demo_two_crops_def demo_crop_stat_def)
qed

lemma pearson_demo: "pearson [500, 1000] [10, 20] = Some 1"
proof -
  have "sqrt 125000 * sqrt 50 = sqrt (2500\<^sup>2)" by (simp add: real_sqrt_mult[symmetric])
  then have s: "sqrt 125000 * sqrt 50 = 2500" by simp
  show ?thesis by (simp add: pearson_def mean_def Let_def power2_eq_square s)
qed

lemma sum_list_quadratic:
  "(\<Sum>(a, b) \<leftarrow> ps. (a * t + b)\<^sup>2)
     = t\<^sup>2 * (\<Sum>(a, b) \<leftarrow> ps. a\<^sup>2) + 2 * t * (\<Sum>(a, b) \<leftarrow> ps. a * b) + (\<Sum>(a, b) \<leftarrow> ps. b\<^sup>2)"
  for t :: real
  by (induction ps) (auto simp: algebra_simps power2_eq_square)

lemma sum_list_squares_nonneg: "0 \<le> (\<Sum>(a, b) \<leftarrow> ps. (f a b :: real)\<^sup>2)"
  by (induction ps) auto

lemma cauchy_schwarz_pairs:
  fixes ps :: "(real \<times> real) list"
  shows "(\<Sum>(a, b) \<leftarrow> ps. a * b)\<^sup>2 \<le> (\<Sum>(a, b) \<leftarrow> ps. a\<^sup>2) * (\<Sum>(a, b) \<leftarrow> ps. b\<^sup>2)"
proof -
  define A where "A = (\<Sum>(a, b) \<leftarrow> ps. a\<^sup>2)"
  define B where "B = (\<Sum>(a, b) \<leftarrow> ps. b\<^sup>2)"
  define C where "C = (\<Sum>(a, b) \<leftarrow> ps. a * b)"
  have A0: "0 \<le> A" unfolding A_def using sum_list_squares_nonneg[of "\<lambda>a b. a" ps] by simp
  have B0: "0 \<le> B" unfolding B_def using sum_list_squares_nonneg[of "\<lambda>a b. b" ps] by simp
  have q: "0 \<le> t\<^sup>2 * A + 2 * t * C + B" for t
    using sum_list_squares_nonneg[of "\<lambda>a b. a * t + b" ps] sum_list_quadratic[of t ps]
    by (simp add: A_def B_def C_def)
  show ?thesis
  proof (cases "A = 0")
    case True
    have "C = 0"
    proof (rule ccontr)
      assume C: "C \<noteq> 0"
      from q[of "- (B + 1) / (2 * C)"] True have "0 \<le> 2 * (- (B + 1) / (2 * C)) * C + B" by simp
      with C have "0 \<le> - (B + 1) + B" by (simp add: field_simps)
      then show False by simp
    qed
    with True show ?thesis by (simp add: A_def B_def C_def)
  next
    case False
    with A0 have Ap: "0 < A" by simp
    from q[of "- C / A"] have "0 \<le> (C / A)\<^sup>2 * A - 2 * (C / A) * C + B" by simp
    then have "0 \<le> C\<^sup>2 / A - 2 * C\<^sup>2 / A + B" using Ap
      by (simp add: power2_eq_square field_simps)
    then have "C\<^sup>2 / A \<le> B" by (simp add: field_simps)
    then have "C\<^sup>2 \<le> B * A" using Ap by (simp add: pos_divide_le_eq)
    then show ?thesis by (simp add: A_def B_def C_def mult.commute)
  qed
qed

lemma sum_zip_fst:
  "length xs = length ys \<Longrightarrow> (\<Sum>(a, b) \<leftarrow> zip xs ys. f a) = (\<Sum>a \<leftarrow> xs. (f a :: real))"
  by (induction xs ys rule: list_induct2) auto

lemma sum_zip_snd:
  "length xs = length ys \<Longrightarrow> (\<Sum>(a, b) \<leftarrow> zip xs ys. f b) = (\<Sum>b \<leftarrow> ys. (f b :: real))"
  by (induction xs ys rule: list_induct2) auto

lemma pearson_in_range:
  assumes len: "length xs = length ys" and r: "pearson xs ys = Some r"
  shows "- 1 \<le> r \<and> r \<le> 1"
proof -
  define mx where "mx = mean xs"
  define my where "my = mean ys"
  define ps where "ps = zip (map (\<lambda>x. x - mx) xs) (map (\<lambda>y. y - my) ys)"
  define A where "A = (\<Sum>x \<leftarrow> xs. (x - mx)\<^sup>2)"
  define B where "B = (\<Sum>y \<leftarrow> ys. (y - my)\<^sup>2)"
  define C where "C = (\<Sum>(x, y) \<leftarrow> zip xs ys. (x - mx) * (y - my))"
  have len': "length (map (\<lambda>x. x - mx) xs) = length (map (\<lambda>y. y - my) ys)" using len by simp
  have pa: "(\<Sum>(a, b) \<leftarrow> ps. a\<^sup>2) = A"
    unfolding ps_def A_def using sum_zip_fst[OF len', of "\<lambda>a. a\<^sup>2"]
    by (simp add: comp_def)
  have pb: "(\<Sum>(a, b) \<leftarrow> ps. b\<^sup>2) = B"
    unfolding ps_def B_def using sum_zip_snd[OF len', of "\<lambda>b. b\<^sup>2"]
    by (simp add: comp_def)
  have pc: "(\<Sum>(a, b) \<leftarrow> ps. a * b) = C"
    unfolding ps_def C_def by (simp add: zip_map_map comp_def case_prod_unfold)
  from cauchy_schwarz_pairs[of ps] have cs: "C\<^sup>2 \<le> A * B" by (simp add: pa pb pc)
  from r have nz: "A \<noteq> 0" "B \<noteq> 0" and rv: "r = C / (sqrt A * sqrt B)"
    by (auto simp: pearson_def Let_def A_def B_def C_def mx_def my_def split: if_splits)
  have A0: "0 \<le> A" unfolding A_def by (induction xs) auto
  have B0: "0 \<le> B" unfolding B_def by (induction ys) auto
  have Ap: "0 < A" "0 < B" using nz A0 B0 by auto
  have d: "0 < sqrt A * sqrt B" using Ap by simp
  have "r\<^sup>2 = C\<^sup>2 / (A * B)"
    using Ap by (simp add: rv power_divide power_mult_distrib)
  also have "\<dots> \<le> 1" using cs Ap by (simp add: divide_le_eq)
  finally have "r\<^sup>2 \<le> 1\<^sup>2" by simp
  then have "\<bar>r\<bar> \<le> 1" using abs_le_square_iff[of r 1] by simp
  then show ?thesis by auto
qed

lemma generate_correlation_below_three:
  assumes "rr \<noteq> []" "cr \<noteq> []" "length (matched_data rr cr) < 3"
  shows "generate_correlation_answer rr cr =
     [correlation_intro_line, insufficient_points_line (length (matched_data rr cr))]"
  using assms by (simp add: generate_correlation_answer_def Let_def)

lemma generate_correlation_three_or_more:
  assumes "rr \<noteq> []" "cr \<noteq> []" "3 \<le> length (matched_data rr cr)"
    and "pearson (map md_rainfall (matched_data rr cr)) (map md_production (matched_data rr cr)) = Some r"
  shows "- 1 \<le> r \<and> r \<le> 1
    \<and> generate_correlation_answer rr cr =
         [correlation_intro_line, coefficient_line (Some r),
          strength_line (Some r) (length (matched_data rr cr)), interpretation_line (Some r)]
    \<and> corr_strength (Some r)
         = (if \<bar>r\<bar> > 0.7 then ''strong'' else if \<bar>r\<bar> > 0.4 then ''moderate'' else ''weak'')
    \<and> corr_direction (Some r) = (if r > 0 then ''positive'' else ''negative'')"
proof -
  have "length (map md_rainfall (matched_data rr cr)) = length (map md_production (matched_data rr cr))"
    by simp
  from pearson_in_range[OF this assms(4)] have b: "- 1 \<le> r \<and> r \<le> 1" .
  have g: "generate_correlation_answer rr cr =
         [correlation_intro_line, coefficient_line (Some r),
          strength_line (Some r) (length (matched_data rr cr)), interpretation_line (Some r)]"
    using assms by (simp add: generate_correlation_answer_def Let_def)
  have s: "corr_strength (Some r)
         = (if \<bar>r\<bar> > 0.7 then ''strong'' else if \<bar>r\<bar> > 0.4 then ''moderate'' else ''weak'')"
    by (simp add: corr_strength_def gt_nan_def abs_nan_def)
  have d: "corr_direction (Some r) = (if r > 0 then ''positive'' else ''negative'')"
    by (simp add: corr_direction_def gt_nan_def)
  from b g s d show ?thesis by blast
qed

lemma demo_pairs_one_location:
  "map md_rainfall (matched_data demo_one_rain demo_three_crops) = [900, 900, 900]
   \<and> map md_production (matched_data demo_one_rain demo_three_crops) = [10, 20, 30]"
proof -
  have a: "locality_match ''Karnataka'' ''Karnataka''" by code_simp
  show ?thesis using a
    by (simp add: matched_data_def matched_pairs_def demo_one_rain_def demo_three_crops_def
        demo_crop_stat_def demo_rain_stat_def)
qed

lemma generate_correlation_constant_series:
  "generate_correlation_answer demo_one_rain demo_three_crops =
     [correlation_intro_line, coefficient_line None, strength_line None 3,
      interpretation_line None]
   \<and> coefficient_line None = Line ''**Correlation Coefficient: {:.3f}**'' [NaN]
   \<and> corr_strength None = ''weak'' \<and> corr_direction None = ''negative''"
proof -
  have p: "pearson [900, 900, 900] [10, 20, 30] = None"
    by (simp add: pearson_def mean_def Let_def)
  have "length (map md_rainfall (matched_data demo_one_rain demo_three_crops)) = 3"
    by (simp only: demo_pairs_one_location) simp
  then have l: "length (matched_data demo_one_rain demo_three_crops) = 3" by simp
  have ne: "demo_one_rain \<noteq> []" "demo_three_crops \<noteq> []"
    by (simp_all add: demo_one_rain_def demo_three_crops_def)
  have g: "generate_correlation_answer demo_one_rain demo_three_crops =
     [correlation_intro_line, coefficient_line None, strength_line None 3,
      interpretation_line None]"
    using ne l by (simp add: generate_correlation_answer_def Let_def demo_pairs_one_location p)
  have c: "coefficient_line None = Line ''**Correlation Coefficient: {:.3f}**'' [NaN]"
    by (simp add: coefficient_line_def float_arg_def)
  have s: "corr_strength None = ''weak'' \<and> corr_direction None = ''negative''"
    by (simp add: corr_strength_def corr_direction_def gt_nan_def abs_nan_def)
  from g c s show ?thesis by blast
qed

text \<open>
  C1. With fewer than three matched pairs the output is to report insufficient data and to
  hold no coefficient. The answer generator does so (\<open>generate_correlation_below_three\<close>),
  and with three or more pairs and a defined coefficient it prints a coefficient in
  \<open>[-1, 1]\<close> with the stated strength and direction
  (\<open>generate_correlation_three_or_more\<close>). \<open>combine_and_analyze\<close> computes a coefficient
  as soon as one pair is matched: for two rainfall locations matched with two crop
  entries it prints the coefficient 1 and stores it in the summary.
\<close>

theorem analyze_correlate_two_pairs_emits_coefficient:
  "action demo_correlate = Correlate
   \<and> length (matched_pairs demo_two_rain demo_two_crops) = 2
   \<and> fst (combine_and_analyze demo_correlate demo_two_rain demo_two_crops)
       = [correlation_heading, pearson_line (Some 1)]
   \<and> pearson_line (Some 1) =
        Line ''Pearson correlation between rainfall and production for matched localities: {:.2f}'' [F 1]
   \<and> sum_correlation (snd (combine_and_analyze demo_correlate demo_two_rain demo_two_crops))
       = Some (Some 1)"
proof -
  have a: "action demo_correlate = Correlate" unfolding demo_correlate_def by code_simp
  show ?thesis using a
    by (simp add: combine_and_analyze_def analyze_correlate_def correlation_rows_def demo_pairs
        demo_rain_stat_def demo_crop_stat_def pearson_demo empty_summary_def Let_def
        pearson_line_def float_arg_def)
qed

section \<open>Properties of the confidence score\<close>

lemma completeness_factor_nonneg: "0 \<le> fst (completeness_factor rr cr parsed)"
  by (simp add: completeness_factor_def Let_def)

lemma volume_factor_nonneg: "0 \<le> fst (volume_factor rr cr)"
  by (simp add: volume_factor_def Let_def)

lemma quality_scores_nonneg: "\<forall>q \<in> set (quality_scores meta srcs). 0 \<le> q"
  by (auto simp: quality_scores_def quality_points_def split: option.splits)

lemma quality_factor_nonneg: "quality_factor meta srcs = Inr (s, f) \<Longrightarrow> 0 \<le> s"
  using quality_scores_nonneg[of meta srcs]
  by (auto simp: quality_factor_def Let_def sum_list_nonneg split: if_splits option.splits)

lemma source_factor_nonneg: "0 \<le> fst (source_factor srcs)"
  by (simp add: source_factor_def)

lemma cross_factor_nonneg: "0 \<le> fst (cross_factor rr cr)"
  by (simp add: cross_factor_def)

lemma py_int_nonneg: "0 \<le> x \<Longrightarrow> 0 \<le> py_int x"
  by (simp add: py_int_def)

lemma quality_scores_mem:
  "quality_scores meta srcs \<noteq> [] \<Longrightarrow> srcs \<noteq> []"
  by (auto simp: quality_scores_def)

lemma quality_factor_returns:
  assumes "\<forall>s \<in> set srcs. map_of meta s \<noteq> None"
  shows "\<exists>s f. quality_factor meta srcs = Inr (s, f)"
proof (cases "quality_scores meta srcs = []")
  case True
  then show ?thesis by (simp add: quality_factor_def)
next
  case False
  then have "srcs \<noteq> []" by (rule quality_scores_mem)
  then have "hd srcs \<in> set srcs" by simp
  with assms obtain m where "map_of meta (hd srcs) = Some m" by auto
  with False show ?thesis by (simp add: quality_factor_def Let_def)
qed

text \<open>
  C7. Whatever the results, the parsed query and the metadata are, a score that the scorer
  returns is an integer from 0 to 99: every factor of the additive model is non-negative
  and the sum is cut off at 99. The scorer returns a score whenever every source used has
  metadata, as every source named by the executors of app.py has.
\<close>

theorem confidence_score_in_0_99:
  "(calculate_confidence_score list_of_set rr cr parsed meta = Inr (score, factors)
      \<longrightarrow> 0 \<le> score \<and> score \<le> 99)
   \<and> ((\<forall>s \<in> set (list_of_set (result_sources rr cr)). map_of meta s \<noteq> None)
      \<longrightarrow> (\<exists>score factors.
             calculate_confidence_score list_of_set rr cr parsed meta = Inr (score, factors)
             \<and> 0 \<le> score \<and> score \<le> 99))"
proof -
  have bound: "0 \<le> sc \<and> sc \<le> 99"
    if h: "calculate_confidence_score list_of_set rr cr parsed meta = Inr (sc, fs)" for sc fs
  proof -
    obtain s1 f1 where c1: "completeness_factor rr cr parsed = (s1, f1)" by (cases "completeness_factor rr cr parsed")
    obtain s2 f2 where c2: "volume_factor rr cr = (s2, f2)" by (cases "volume_factor rr cr")
    obtain s4 f4 where c4: "source_factor (list_of_set (result_sources rr cr)) = (s4, f4)"
      by (cases "source_factor (list_of_set (result_sources rr cr))")
    obtain s5 f5 where c5: "cross_factor rr cr = (s5, f5)" by (cases "cross_factor rr cr")
    from h c1 c2 c4 c5 obtain s3 f3 where
      c3: "quality_factor meta (list_of_set (result_sources rr cr)) = Inr (s3, f3)"
      and sc: "sc = min 99 (py_int (s1 + s2 + s3 + s4 + s5))"
      by (auto simp: calculate_confidence_score_def Let_def split: sum.splits prod.splits)
    have "0 \<le> s1" using completeness_factor_nonneg[of rr cr parsed] c1 by simp
    moreover have "0 \<le> s2" using volume_factor_nonneg[of rr cr] c2 by simp
    moreover have "0 \<le> s3" using quality_factor_nonneg[OF c3] .
    moreover have "0 \<le> s4" using source_factor_nonneg[of "list_of_set (result_sources rr cr)"] c4 by simp
    moreover have "0 \<le> s5" using cross_factor_nonneg[of rr cr] c5 by simp
    ultimately have "0 \<le> s1 + s2 + s3 + s4 + s5" by simp
    then have "0 \<le> py_int (s1 + s2 + s3 + s4 + s5)" by (rule py_int_nonneg)
    with sc show ?thesis by simp
  qed
  have ret: "\<exists>score factors.
             calculate_confidence_score list_of_set rr cr parsed meta = Inr (score, factors)
             \<and> 0 \<le> score \<and> score \<le> 99"
    if w: "\<forall>s \<in> set (list_of_set (result_sources rr cr)). map_of meta s \<noteq> None"
  proof -
    from quality_factor_returns[OF w] obtain s3 f3 where
      "quality_factor meta (list_of_set (result_sources rr cr)) = Inr (s3, f3)" by blast
    then have "\<exists>sc fs. calculate_confidence_score list_of_set rr cr parsed meta = Inr (sc, fs)"
      by (cases "completeness_factor rr cr parsed"; cases "volume_factor rr cr";
          cases "source_factor (list_of_set (result_sources rr cr))"; cases "cross_factor rr cr")
         (simp add: calculate_confidence_score_def Let_def)
    then obtain sc fs where "calculate_confidence_score list_of_set rr cr parsed meta = Inr (sc, fs)"
      by blast
    with bound show ?thesis by blast
  qed
  from bound ret show ?thesis by blast
qed

lemma confidence_score_demo: "fst (projr (calculate_confidence_score remdups demo_app_rain demo_app_crops demo_compare demo_app_meta)) = 99"
proof -
  have l: "locations demo_compare = [''Kerala'', ''Punjab'']" unfolding demo_compare_def by code_simp
  show ?thesis
    by (simp add: calculate_confidence_score_def completeness_factor_def volume_factor_def
        quality_factor_def quality_scores_def quality_points_def source_factor_def cross_factor_def
        result_sources_def demo_app_rain_def demo_app_crops_def demo_app_meta_def l Let_def py_int_def)
qed

theorem confidence_score_witness:
  "(\<exists>score factors.
      calculate_confidence_score remdups demo_app_rain demo_app_crops demo_compare demo_app_meta
        = Inr (score, factors) \<and> 0 \<le> score \<and> score \<le> 99)
   \<and> fst (projr (calculate_confidence_score remdups demo_app_rain demo_app_crops demo_compare
                      demo_app_meta)) = 99"
proof -
  have w: "\<forall>s \<in> set (remdups (result_sources demo_app_rain demo_app_crops)).
             map_of demo_app_meta s \<noteq> None"
    by (simp add: result_sources_def demo_app_rain_def demo_app_crops_def demo_app_meta_def)
  from confidence_score_in_0_99[of remdups demo_app_rain demo_app_crops demo_compare demo_app_meta]
    w confidence_score_demo
  show ?thesis by blast
qed

lemma confidence_score_key_error_example:
  "calculate_confidence_score remdups demo_app_rain demo_app_crops demo_compare
     [(''crops.csv'', \<lparr>am_type = Crop, am_quality = ''high''\<rparr>)] = Inl KeyError"
  by (simp add: calculate_confidence_score_def quality_factor_def quality_scores_def
      result_sources_def demo_app_rain_def demo_app_crops_def Let_def split: prod.splits)
section \<open>Properties of the crop executor\<close>

lemma fold_no_crops: "fold (\<lambda>loc. id) locs st = st"
  by (induction locs) auto

text \<open>
  C10. A crop table without a crop column yields no statistic and no citation when the
  query names no crops: the list of crops stays empty, so the loop over locations and crops
  never runs its body, whatever rows match the location and whatever the production
  column holds. (With a crop named in the query the same table does yield a statistic,
  as the witness shows.)
\<close>

theorem query_crops_without_crop_column_and_crops:
  assumes "find_column (columns (df ds)) [''crop'', ''crop name'', ''crop_type''] = None"
      and "parsed_query.crops parsed = []"
  shows "query_crops_ds P parsed ds st = st"
  using assms
  by (simp add: query_crops_ds_def crop_list_def Let_def fold_no_crops
      split: option.splits prod.splits)

theorem query_crops_without_crop_column_witness:
  "find_column (columns (df demo_crop_ds)) [''crop'', ''crop name'', ''crop_type''] = None
   \<and> parsed_query.crops demo_mysore = []
   \<and> locations demo_mysore = [''Mysore'']
   \<and> query_crops_ds plain_pandas demo_mysore demo_crop_ds ([], []) = ([], [])
   \<and> map fst (fst (query_crops_ds plain_pandas demo_mysore_maize demo_crop_ds ([], [])))
       = [''Mysore_maize'']"
proof -
  have a: "find_column (columns (df demo_crop_ds)) [''crop'', ''crop name'', ''crop_type''] = None"
    by code_simp
  have b: "parsed_query.crops demo_mysore = []" by code_simp
  have c: "locations demo_mysore = [''Mysore'']" by code_simp
  have d: "map fst (fst (query_crops_ds plain_pandas demo_mysore_maize demo_crop_ds ([], [])))
       = [''Mysore_maize'']" by code_simp
  from query_crops_without_crop_column_and_crops[OF a b, of plain_pandas "([], [])"] a b c d
  show ?thesis by simp
qed

section \<open>Properties of the time window\<close>

lemma list_max_is_Max: "xs \<noteq> [] \<Longrightarrow> list_max xs = Max (set xs)"
  by (cases xs) (simp_all add: list_max_def Max.set_eq_fold[symmetric])

lemma numeric_values_set:
  "v \<in> set (numeric_values P cs) \<longleftrightarrow> (\<exists>c \<in> set cs. to_numeric P c = Some v)"
  by (induction cs) (auto simp: numeric_values_def split: option.splits)

lemma max_numeric_is_max:
  assumes "max_numeric P cs = Some m"
  shows "(\<exists>c \<in> set cs. to_numeric P c = Some m)
         \<and> (\<forall>c \<in> set cs. \<forall>y. to_numeric P c = Some y \<longrightarrow> y \<le> m)"
proof -
  from assms have ne: "numeric_values P cs \<noteq> []" and m: "m = list_max (numeric_values P cs)"
    by (auto simp: max_numeric_def Let_def split: if_splits)
  from ne m have mx: "m = Max (set (numeric_values P cs))" by (simp add: list_max_is_Max)
  have "m \<in> set (numeric_values P cs)" using mx ne by (simp add: Max_in)
  moreover have "\<forall>v \<in> set (numeric_values P cs). v \<le> m" using mx by simp
  ultimately show ?thesis by (auto simp: numeric_values_set)
qed

lemma max_numeric_none:
  "max_numeric P cs = None \<longleftrightarrow> (\<forall>c \<in> set cs. to_numeric P c = None)"
  by (auto simp: max_numeric_def Let_def numeric_values_def split: option.splits)

lemma year_at_least_iff:
  "year_at_least P t yc b r \<longleftrightarrow> (\<exists>y. to_numeric P (cell_of t yc r) = Some y \<and> b \<le> y)"
  by (simp add: year_at_least_def split: option.splits)

lemma apply_time_window_last_n:
  assumes "prefix ''last_'' (time_period parsed)"
      and "int_of_string (split_at CHR ''_'' (time_period parsed) ! 1) = Some n"
      and "max_numeric P (col_values t yc) = Some max_year"
  shows "apply_time_window P parsed t (Some yc) sel
           = Inr (filter (\<lambda>r. \<exists>y. to_numeric P (cell_of t yc r) = Some y
                                   \<and> max_year - real_of_int n + 1 \<le> y) sel)"
  using assms by (simp add: apply_time_window_def Let_def year_at_least_iff[abs_def])

lemma named_windows:
  "int_of_string (split_at CHR ''_'' ''last_5'' ! 1) = Some 5
   \<and> int_of_string (split_at CHR ''_'' ''last_10'' ! 1) = Some 10
   \<and> int_of_string (split_at CHR ''_'' ''last_20'' ! 1) = Some 20"
  by code_simp

text \<open>
  C3. A window \<open>last_N\<close> is to keep the selected rows whose year is at least
  \<open>max_year - N + 1\<close>, the maximum taken over the numeric years of the whole table, and to
  drop rows whose year is not numeric. \<open>query_rainfall\<close> of analyzer.py does so
  (\<open>apply_time_window_last_n\<close>, \<open>max_numeric_is_max\<close>). \<open>query_rainfall_data\<close> of app.py
  compares with \<open>max_year - N\<close>: on a table with the years 2011 to 2017 the window
  \<open>last_5\<close> keeps the six years from 2012 on, where analyzer.py keeps the five years from
  2013 on.
\<close>

theorem query_rainfall_data_last_5_keeps_six_years:
  "time_period demo_last5 = ''last_5''
   \<and> app_time_filter demo_last5 demo_rain_table (Some ''YEAR'') (rows demo_rain_table)
       = Inr (drop 1 (rows demo_rain_table))
   \<and> map (\<lambda>kv. a_rain_points (snd kv))
        (fst (query_rainfall_data plain_pandas demo_last5 [(''rain.csv'', demo_rain_table)] []))
       = [6]
   \<and> map (\<lambda>kv. a_rainfall_min (snd kv))
        (fst (query_rainfall_data plain_pandas demo_last5 [(''rain.csv'', demo_rain_table)] []))
       = [Some 510]
   \<and> apply_time_window plain_pandas demo_last5 demo_rain_table (Some ''YEAR'')
        (rows demo_rain_table) = Inr (drop 2 (rows demo_rain_table))"
  by code_simp

section \<open>Properties of the keys of the rainfall results\<close>

lemma set_masked: "set (masked msk xs) \<subseteq> set xs"
  by (auto simp: masked_def dest: set_zip_rightD)

lemma set_unique: "set (unique xs) = set xs"
  by (simp add: unique_def)

lemma rainfall_for_loc_keys:
  "fst ` set (fst (rainfall_for_loc P parsed name t lc yc ac loc st))
     \<subseteq> insert loc (fst ` set (fst st))"
  by (auto simp: rainfall_for_loc_def Let_def dict_set_keys
      split: option.splits sum.splits if_splits)

lemma fold_rainfall_keys:
  "fst ` set (fst (fold (rainfall_for_loc P parsed name t lc yc ac) locs st))
     \<subseteq> fst ` set (fst st) \<union> set locs"
proof (induction locs arbitrary: st)
  case Nil
  then show ?case by simp
next
  case (Cons loc locs)
  have "fst ` set (fst (fold (rainfall_for_loc P parsed name t lc yc ac) locs
            (rainfall_for_loc P parsed name t lc yc ac loc st)))
        \<subseteq> fst ` set (fst (rainfall_for_loc P parsed name t lc yc ac loc st)) \<union> set locs"
    by (rule Cons.IH)
  also have "\<dots> \<subseteq> insert loc (fst ` set (fst st)) \<union> set locs"
    using rainfall_for_loc_keys[of P parsed name t lc yc ac loc st] by auto
  finally show ?case by auto
qed

lemma candidate_locs_cases:
  assumes "k \<in> set (candidate_locs P parsed t lc)"
  shows "if all_requested parsed
         then k \<in> set (map (cell_str P) (dropna (col_values t lc)))
         else k \<in> set (locations parsed)"
  using assms by (auto simp: candidate_locs_def set_unique split: if_splits)

lemma query_rainfall_ds_keys:
  assumes "query_rainfall_ds P parsed ds st = Inr st'" and "k \<in> fst ` set (fst st')"
  shows "k \<in> fst ` set (fst st)
         \<or> (if all_requested parsed then k \<in> set (location_labels P ds)
             else k \<in> set (locations parsed))"
proof (cases "with_annual P (df ds)")
  case (Inl e)
  with assms show ?thesis by (simp add: query_rainfall_ds_def Let_def)
next
  case (Inr ta)
  obtain t annual_col where ta: "ta = (t, annual_col)" by (cases ta)
  let ?lc = "find_column (columns (df ds))
               [''subdiv'', ''subdivision'', ''state'', ''region'', ''district'']"
  show ?thesis
  proof (cases "?lc")
    case None
    with assms Inr ta show ?thesis by (simp add: query_rainfall_ds_def Let_def)
  next
    case (Some lc)
    show ?thesis
    proof (cases annual_col)
      case None
      with assms Inr ta Some show ?thesis by (simp add: query_rainfall_ds_def Let_def)
    next
      case (Some ac)
      from assms Inr ta \<open>?lc = Some lc\<close> Some
      have st': "st' = fold (rainfall_for_loc P parsed (ds_name ds) t lc
                       (find_column (columns (df ds)) [''year'']) ac)
                     (candidate_locs P parsed t lc) st"
        by (simp add: query_rainfall_ds_def Let_def)
      from assms(2) fold_rainfall_keys[of P parsed "ds_name ds" t lc _ ac "candidate_locs P parsed t lc" st]
      have "k \<in> fst ` set (fst st) \<or> k \<in> set (candidate_locs P parsed t lc)"
        unfolding st' by blast
      then show ?thesis
      proof
        assume "k \<in> fst ` set (fst st)" then show ?thesis by simp
      next
        assume "k \<in> set (candidate_locs P parsed t lc)"
        from candidate_locs_cases[OF this]
        have "if all_requested parsed
              then k \<in> set (map (cell_str P) (dropna (col_values t lc)))
              else k \<in> set (locations parsed)" .
        moreover have "location_labels P ds = map (cell_str P) (dropna (col_values t lc))"
          using Inr ta \<open>?lc = Some lc\<close> by (simp add: location_labels_def)
        ultimately show ?thesis by (simp split: if_splits)
      qed
    qed
  qed
qed

lemma query_rainfall_loop_keys:
  assumes "query_rainfall_loop P parsed dss st = Inr st'" and "k \<in> fst ` set (fst st')"
  shows "k \<in> fst ` set (fst st)
         \<or> (if all_requested parsed then \<exists>ds \<in> set dss. k \<in> set (location_labels P ds)
             else k \<in> set (locations parsed))"
  using assms
proof (induction dss arbitrary: st)
  case Nil
  then show ?case by simp
next
  case (Cons ds dss)
  from Cons.prems(1) obtain st1 where s1: "query_rainfall_ds P parsed ds st = Inr st1"
    and s2: "query_rainfall_loop P parsed dss st1 = Inr st'"
    by (auto split: sum.splits)
  from Cons.IH[OF s2 Cons.prems(2)]
  have "k \<in> fst ` set (fst st1)
         \<or> (if all_requested parsed then \<exists>d \<in> set dss. k \<in> set (location_labels P d)
             else k \<in> set (locations parsed))" .
  then show ?case
  proof
    assume "k \<in> fst ` set (fst st1)"
    from query_rainfall_ds_keys[OF s1 this] show ?thesis by (auto split: if_splits)
  next
    assume "if all_requested parsed then \<exists>d \<in> set dss. k \<in> set (location_labels P d)
             else k \<in> set (locations parsed)"
    then show ?thesis by (auto split: if_splits)
  qed
qed

lemma app_select_rows:
  assumes "app_select P parsed t lc location = Some sel"
  shows "set sel \<subseteq> set (rows t)"
proof (cases "app_all_mode parsed")
  case True
  with assms show ?thesis by (auto simp: app_select_def)
next
  case False
  with assms obtain msk where "sel = masked msk (rows t)"
    by (auto simp: app_select_def Let_def split: if_splits)
  then show ?thesis using set_masked[of msk "rows t"] by simp
qed

lemma app_time_filter_rows:
  "app_time_filter parsed t yc sel = Inr sel2 \<Longrightarrow> set sel2 \<subseteq> set sel"
  by (auto simp: app_time_filter_def last_n_rows_def Let_def split: option.splits if_splits)

lemma app_rainfall_for_loc_keys:
  "fst ` set (fst (app_rainfall_for_loc P parsed name t lc yc ac location st))
     \<subseteq> fst ` set (fst st) \<union> set (col_values t lc)"
proof (cases "location = Txt ''all''")
  case True
  then show ?thesis by (simp add: app_rainfall_for_loc_def)
next
  case False
  show ?thesis
  proof (cases "app_select P parsed t lc location")
    case None
    with False show ?thesis by (simp add: app_rainfall_for_loc_def)
  next
    case (Some sel)
    show ?thesis
    proof (cases "app_time_filter parsed t yc sel")
      case (Inl e)
      with False Some show ?thesis by (simp add: app_rainfall_for_loc_def)
    next
      case (Inr sel2)
      show ?thesis
      proof (cases "sel2 = []")
        case True
        with False Some Inr show ?thesis by (simp add: app_rainfall_for_loc_def)
      next
        case ne: False
        then have "hd sel2 \<in> set sel2" by simp
        with app_time_filter_rows[OF Inr] app_select_rows[OF Some]
        have "hd sel2 \<in> set (rows t)" by blast
        then have "cell_of t lc (hd sel2) \<in> set (col_values t lc)"
          by (simp add: col_values_def)
        with False Some Inr ne show ?thesis
          by (auto simp: app_rainfall_for_loc_def Let_def dict_set_keys
              split: option.splits prod.splits if_splits)
      qed
    qed
  qed
qed

lemma fold_app_rainfall_keys:
  "fst ` set (fst (fold (app_rainfall_for_loc P parsed name t lc yc ac) locs st))
     \<subseteq> fst ` set (fst st) \<union> set (col_values t lc)"
proof (induction locs arbitrary: st)
  case Nil
  then show ?case by simp
next
  case (Cons loc locs)
  have "fst ` set (fst (fold (app_rainfall_for_loc P parsed name t lc yc ac) locs
            (app_rainfall_for_loc P parsed name t lc yc ac loc st)))
        \<subseteq> fst ` set (fst (app_rainfall_for_loc P parsed name t lc yc ac loc st))
           \<union> set (col_values t lc)"
    by (rule Cons.IH)
  also have "\<dots> \<subseteq> fst ` set (fst st) \<union> set (col_values t lc)"
    using app_rainfall_for_loc_keys[of P parsed name t lc yc ac loc st] by auto
  finally show ?case by simp
qed

lemma query_rainfall_data_ds_keys:
  "fst ` set (fst (query_rainfall_data_ds P parsed ds st))
     \<subseteq> fst ` set (fst st) \<union> set (app_location_labels ds)"
proof -
  let ?lc = "first_present [''SUBDIVISION'', ''State'', ''STATE'', ''District'', ''DISTRICT'',
                          ''Region''] (columns (snd ds))"
  let ?ac = "first_present [''ANNUAL'', ''Annual'', ''Total'', ''Rainfall''] (columns (snd ds))"
  show ?thesis
  proof (cases ?lc)
    case None
    then show ?thesis by (simp add: query_rainfall_data_ds_def Let_def)
  next
    case (Some lc)
    show ?thesis
    proof (cases ?ac)
      case None
      with Some show ?thesis by (simp add: query_rainfall_data_ds_def Let_def)
    next
      case ac: (Some ac)
      have l: "app_location_labels ds = col_values (snd ds) lc"
        using Some by (simp add: app_location_labels_def)
      show ?thesis
        using Some ac fold_app_rainfall_keys[of P parsed "fst ds" "snd ds" lc _ ac _ st]
        by (simp add: query_rainfall_data_ds_def Let_def l)
    qed
  qed
qed

lemma fold_query_rainfall_data_keys:
  "fst ` set (fst (fold (query_rainfall_data_ds P parsed) dss st))
     \<subseteq> fst ` set (fst st) \<union> (\<Union>ds \<in> set dss. set (app_location_labels ds))"
proof (induction dss arbitrary: st)
  case Nil
  then show ?case by simp
next
  case (Cons ds dss)
  have "fst ` set (fst (fold (query_rainfall_data_ds P parsed) dss
                          (query_rainfall_data_ds P parsed ds st)))
        \<subseteq> fst ` set (fst (query_rainfall_data_ds P parsed ds st))
           \<union> (\<Union>d \<in> set dss. set (app_location_labels d))"
    by (rule Cons.IH)
  also have "\<dots> \<subseteq> fst ` set (fst st) \<union> set (app_location_labels ds)
                  \<union> (\<Union>d \<in> set dss. set (app_location_labels d))"
    using query_rainfall_data_ds_keys[of P parsed ds st] by auto
  finally show ?case by auto
qed

text \<open>
  Where the keys of the rainfall results come from: \<open>query_rainfall\<close> of analyzer.py takes
  them from the location strings of the query when the query names locations, and from
  the values of the location column when it asks for all locations; \<open>query_rainfall_data\<close>
  of app.py takes them from the values of the location column.
\<close>

lemma rainfall_result_keys_bound:
  "(query_rainfall P parsed dsets cits = Inr (res, cits') \<and> k \<in> set (map fst res)
      \<longrightarrow> (if all_requested parsed
           then \<exists>ds \<in> set (rainfall dsets). k \<in> set (location_labels P ds)
           else k \<in> set (locations parsed)))
   \<and> (c \<in> set (map fst (fst (query_rainfall_data P parsed rainfall_datasets cits)))
      \<longrightarrow> (\<exists>ds \<in> set rainfall_datasets. c \<in> set (app_location_labels ds)))"
proof (intro conjI impI)
  assume a: "query_rainfall P parsed dsets cits = Inr (res, cits') \<and> k \<in> set (map fst res)"
  then have l: "query_rainfall_loop P parsed (rainfall dsets) ([], cits) = Inr (res, cits')"
    and k: "k \<in> fst ` set (fst (res, cits'))"
    by (simp_all add: query_rainfall_def)
  from query_rainfall_loop_keys[OF l k]
  show "if all_requested parsed
        then \<exists>ds \<in> set (rainfall dsets). k \<in> set (location_labels P ds)
        else k \<in> set (locations parsed)"
    by simp
next
  assume "c \<in> set (map fst (fst (query_rainfall_data P parsed rainfall_datasets cits)))"
  then have "c \<in> fst ` set (fst (fold (query_rainfall_data_ds P parsed) rainfall_datasets ([], cits)))"
    by (simp add: query_rainfall_data_def)
  with fold_query_rainfall_data_keys[of P parsed rainfall_datasets "([], cits)"]
  show "\<exists>ds \<in> set rainfall_datasets. c \<in> set (app_location_labels ds)" by auto
qed

text \<open>
  C9. Every rainfall statistic is to be keyed by the location label of the matched rows,
  not by the location string of the query. \<open>query_rainfall_data\<close> of app.py does so: the
  query for \<open>Punjab\<close> on a table whose rows are labelled \<open>PUNJAB\<close> stores its statistic
  under \<open>PUNJAB\<close>. \<open>query_rainfall\<close> of analyzer.py stores the statistic of the same seven
  rows under \<open>Punjab\<close>, the string of the query.
\<close>

theorem query_rainfall_keys_by_query_string:
  "locations demo_punjab = [''Punjab'']
   \<and> time_period demo_punjab = ''all''
   \<and> map (cell_of demo_rain_table ''SUBDIVISION'') (rows demo_rain_table)
       = replicate 7 (Txt ''PUNJAB'')
   \<and> map (\<lambda>kv. (fst kv, rainfall_avg (snd kv), rain_points (snd kv), rain_source (snd kv)))
         (fst (projr (query_rainfall plain_pandas demo_punjab demo_rain_datasets [])))
       = [(''Punjab'', 530, 7, ''rain.csv'')]
   \<and> map cit_query_type (snd (projr (query_rainfall plain_pandas demo_punjab demo_rain_datasets [])))
       = [''rainfall stats for Punjab'']
   \<and> map (\<lambda>kv. (fst kv, a_rainfall_avg (snd kv), a_rain_points (snd kv), a_rain_source (snd kv)))
         (fst (query_rainfall_data plain_pandas demo_punjab [(''rain.csv'', demo_rain_table)] []))
       = [(Txt ''PUNJAB'', Some 530, 7, ''rain.csv'')]"
  by code_simp

end
